theory Spec2Isabelle
  imports Complex_Main
begin

section \<open>JavaScript values\<close>

text \<open>
  A JavaScript number is a double. The matcher only compares numbers and takes the
  remainder by 1, so a finite number is kept as the rational it denotes; the three
  non-finite doubles are values of their own. Positive and negative zero are one value.
\<close>

datatype jsnum = NaN | NegInfinity | Finite rat | Infinity

text \<open>\<^verbatim>\<open>a < b\<close> on numbers: false as soon as one side is NaN.\<close>

fun num_lt :: "jsnum \<Rightarrow> jsnum \<Rightarrow> bool" where
  "num_lt NaN b = False"
| "num_lt NegInfinity NaN = False"
| "num_lt NegInfinity NegInfinity = False"
| "num_lt NegInfinity (Finite y) = True"
| "num_lt NegInfinity Infinity = True"
| "num_lt (Finite x) NaN = False"
| "num_lt (Finite x) NegInfinity = False"
| "num_lt (Finite x) (Finite y) = (x < y)"
| "num_lt (Finite x) Infinity = True"
| "num_lt Infinity b = False"

text \<open>\<^verbatim>\<open>a != b\<close> on numbers: NaN differs from every number, itself included.\<close>

definition num_neq :: "jsnum \<Rightarrow> jsnum \<Rightarrow> bool" where
  "num_neq a b = (a = NaN \<or> b = NaN \<or> a \<noteq> b)"

text \<open>
  \<^verbatim>\<open>value % 1\<close>: NaN for NaN and for the infinities, otherwise the fractional part
  with the sign of the dividend.
\<close>

fun rem1 :: "jsnum \<Rightarrow> jsnum" where
  "rem1 NaN = NaN"
| "rem1 NegInfinity = NaN"
| "rem1 Infinity = NaN"
| "rem1 (Finite x) = Finite (if 0 \<le> x then frac x else - frac (- x))"

text \<open>\<^verbatim>\<open>!!n\<close> on a number: false for zero and for NaN.\<close>

fun truthy_num :: "jsnum \<Rightarrow> bool" where
  "truthy_num NaN = False"
| "truthy_num (Finite x) = (x \<noteq> 0)"
| "truthy_num NegInfinity = True"
| "truthy_num Infinity = True"

subsection \<open>Regular expressions\<close>

text \<open>
  The language of a pattern, as a small syntax with a derivative matcher. \<open>Rep m n r\<close> is
  \<^verbatim>\<open>r{m,n}\<close>, with \<open>n = None\<close> for no upper bound, so \<^verbatim>\<open>r*\<close> is \<open>Rep 0 None r\<close> and
  \<^verbatim>\<open>r+\<close> is \<open>Rep 1 None r\<close>.
\<close>

datatype rx =
    Zero
  | One
  | Cls "char list"
  | NotCls "char list"
  | Seq rx rx
  | Alt rx rx
  | Rep nat "nat option" rx

fun nullable :: "rx \<Rightarrow> bool" where
  "nullable Zero = False"
| "nullable One = True"
| "nullable (Cls cs) = False"
| "nullable (NotCls cs) = False"
| "nullable (Seq r s) = (nullable r \<and> nullable s)"
| "nullable (Alt r s) = (nullable r \<or> nullable s)"
| "nullable (Rep m n r) = (m = 0 \<or> nullable r)"

fun deriv :: "char \<Rightarrow> rx \<Rightarrow> rx" where
  "deriv c Zero = Zero"
| "deriv c One = Zero"
| "deriv c (Cls cs) = (if c \<in> set cs then One else Zero)"
| "deriv c (NotCls cs) = (if c \<in> set cs then Zero else One)"
| "deriv c (Seq r s) =
     (if nullable r then Alt (Seq (deriv c r) s) (deriv c s) else Seq (deriv c r) s)"
| "deriv c (Alt r s) = Alt (deriv c r) (deriv c s)"
| "deriv c (Rep m n r) =
     (case n of
        None \<Rightarrow> Seq (deriv c r) (Rep (m - 1) None r)
      | Some k \<Rightarrow> if k = 0 then Zero else Seq (deriv c r) (Rep (m - 1) (Some (k - 1)) r))"

definition rx_match :: "rx \<Rightarrow> string \<Rightarrow> bool" where
  "rx_match r s = nullable (foldl (\<lambda>q c. deriv c q) r s)"

text \<open>
  A RegExp object: its identity (\<^verbatim>\<open>==\<close> on two objects compares identities), its textual
  form, its \<^verbatim>\<open>g\<close> and \<^verbatim>\<open>y\<close> flags, and what its matcher finds: \<open>re_exec p i s\<close> is the
  end of the match found in \<open>s\<close> when the search starts at index \<open>i\<close>, if there is one.
\<close>

datatype regexp =
  RegExp (re_id: nat) (re_source: string) (re_global: bool) (re_sticky: bool)
    (re_exec: "nat \<Rightarrow> string \<Rightarrow> nat option")

text \<open>The matcher of a pattern \<^verbatim>\<open>/^r$/\<close>: only the whole string, from its start.\<close>

definition anchored :: "rx \<Rightarrow> nat \<Rightarrow> string \<Rightarrow> nat option" where
  "anchored r i s = (if i = 0 \<and> rx_match r s then Some (length s) else None)"

text \<open>
  The only state a match touches: the \<^verbatim>\<open>lastIndex\<close> of each RegExp object, by identity.
  \<^verbatim>\<open>test\<close> reads and writes it when the pattern has the \<^verbatim>\<open>g\<close> or \<^verbatim>\<open>y\<close> flag, and
  otherwise searches from the start and leaves it alone.
\<close>

type_synonym store = "nat \<Rightarrow> nat"

definition test :: "regexp \<Rightarrow> string \<Rightarrow> store \<Rightarrow> bool \<times> store" where
  "test p s st =
     (if re_global p \<or> re_sticky p then
        (case re_exec p (st (re_id p)) s of
           None \<Rightarrow> (False, st(re_id p := 0))
         | Some e \<Rightarrow> (True, st(re_id p := e)))
      else (re_exec p 0 s \<noteq> None, st))"

subsection \<open>Values\<close>

text \<open>
  Arrays are dense and have no own property besides their items and \<^verbatim>\<open>length\<close>; their
  prototype is \<^verbatim>\<open>Array.prototype\<close>. An object is the list of its own properties, all
  enumerable, in the order \<^verbatim>\<open>Object.entries\<close> gives them, with distinct keys; its
  prototype is \<^verbatim>\<open>Object.prototype\<close>. A string is the list of its characters, which its
  length counts. A date is its time value. The members that objects and arrays inherit
  bring three more values in: the function \<^verbatim>\<open>Object\<close>, which \<^verbatim>\<open>isObject\<close> compares the
  \<^verbatim>\<open>constructor\<close> of a value with, and the two prototypes, which the getter \<^verbatim>\<open>__proto__\<close>
  returns. \<open>VOther\<close> is any other value that none of the nine tests below accepts: a
  function other than \<^verbatim>\<open>Object\<close>, a symbol, an instance of a class.
\<close>

datatype jsval =
    VUndefined
  | VNull
  | VBool bool
  | VNum jsnum
  | VStr string
  | VDate jsnum
  | VRegExp regexp
  | VArr "jsval list"
  | VObj "(string \<times> jsval) list"
  | VOther
  | VObjectFunction
  | VObjectPrototype
  | VArrayPrototype


text \<open>
  \<^verbatim>\<open>value === undefined\<close> and \<^verbatim>\<open>value === null\<close>, then \<^verbatim>\<open>Object(value) instanceof String\<close>
  and its siblings, \<^verbatim>\<open>Array.isArray(value)\<close>, which holds of \<^verbatim>\<open>Array.prototype\<close> too, and
  \<^verbatim>\<open>value?.constructor === Object\<close>. The \<^verbatim>\<open>constructor\<close> of an object is its own property
  of that name when it has one, and otherwise the one it inherits, which is \<^verbatim>\<open>Object\<close>;
  it is an own property of \<^verbatim>\<open>Object.prototype\<close>. That of every other value is another
  function.
\<close>

fun isUndefined :: "jsval \<Rightarrow> bool" where
  "isUndefined VUndefined = True"
| "isUndefined v = False"

fun isNull :: "jsval \<Rightarrow> bool" where
  "isNull VNull = True"
| "isNull v = False"

fun isString :: "jsval \<Rightarrow> bool" where
  "isString (VStr s) = True"
| "isString v = False"

fun isNumber :: "jsval \<Rightarrow> bool" where
  "isNumber (VNum n) = True"
| "isNumber v = False"

fun isDate :: "jsval \<Rightarrow> bool" where
  "isDate (VDate t) = True"
| "isDate v = False"

fun isBoolean :: "jsval \<Rightarrow> bool" where
  "isBoolean (VBool b) = True"
| "isBoolean v = False"

fun isRegExp :: "jsval \<Rightarrow> bool" where
  "isRegExp (VRegExp p) = True"
| "isRegExp v = False"

fun isArray :: "jsval \<Rightarrow> bool" where
  "isArray (VArr xs) = True"
| "isArray VArrayPrototype = True"
| "isArray v = False"

fun isObjectFunction :: "jsval \<Rightarrow> bool" where
  "isObjectFunction VObjectFunction = True"
| "isObjectFunction v = False"

fun isObject :: "jsval \<Rightarrow> bool" where
  "isObject (VObj fs) =
     (case map_of fs ''constructor'' of None \<Rightarrow> True | Some c \<Rightarrow> isObjectFunction c)"
| "isObject VObjectPrototype = True"
| "isObject v = False"

text \<open>
  \<^verbatim>\<open>Object.entries(value)\<close> of a value that \<^verbatim>\<open>isObject\<close> accepts, and the items of one that
  \<^verbatim>\<open>isArray\<close> accepts: the two prototypes have none.
\<close>

fun Object_entries :: "jsval \<Rightarrow> (string \<times> jsval) list" where
  "Object_entries (VObj fs) = fs"
| "Object_entries v = []"

fun items :: "jsval \<Rightarrow> jsval list" where
  "items (VArr xs) = xs"
| "items v = []"

text \<open>What escapes a call instead of a result.\<close>

datatype exn = TypeError | RangeError | Thrown jsval

section \<open>The named patterns\<close>

definition lower :: "char list" where
  "lower = ''abcdefghijklmnopqrstuvwxyz''"

definition upper :: "char list" where
  "upper = ''ABCDEFGHIJKLMNOPQRSTUVWXYZ''"

definition digits :: "char list" where
  "digits = ''0123456789''"

definition hex :: "char list" where
  "hex = ''abcdef'' @ digits"

text \<open>With the \<^verbatim>\<open>i\<close> flag a class of letters holds both cases.\<close>

definition alnum_i :: "char list" where
  "alnum_i = lower @ upper @ digits"

definition patterns_uuid :: regexp where
  "patterns_uuid = RegExp 0 ''/^[a-f0-9]{8}-([a-f0-9]{4}-){3}[a-f0-9]{12}$/'' False False
     (anchored
        (Seq (Rep 8 (Some 8) (Cls hex))
        (Seq (Cls ''-'')
        (Seq (Rep 3 (Some 3) (Seq (Rep 4 (Some 4) (Cls hex)) (Cls ''-'')))
             (Rep 12 (Some 12) (Cls hex))))))"

definition patterns_slug :: regexp where
  "patterns_slug = RegExp 1 ''/^[a-z0-9]+(?:-[a-z0-9]+)*$/i'' False False
     (anchored
        (Seq (Rep 1 None (Cls alnum_i))
             (Rep 0 None (Seq (Cls ''-'') (Rep 1 None (Cls alnum_i))))))"

definition email_local :: "char list" where
  "email_local = alnum_i @ ''_!#$%&'' @ [CHR 0x27] @ ''*+/=?`{|}~^.-''"

definition patterns_email :: regexp where
  "patterns_email =
     RegExp 2
       (''/^[a-z0-9_!#$%&'' @ [CHR 0x27] @ ''*+'' @ [CHR 0x5C] @ ''/=?`{|}~^.-]+@[a-z0-9.-]+''
          @ [CHR 0x5C] @ ''.[a-z]{2,}$/i'')
       False False
       (anchored
          (Seq (Rep 1 None (Cls email_local))
          (Seq (Cls ''@'')
          (Seq (Rep 1 None (Cls (alnum_i @ ''.-'')))
          (Seq (Cls ''.'')
               (Rep 2 None (Cls (lower @ upper))))))))"

definition patterns_social :: regexp where
  "patterns_social = RegExp 3 ''/^[a-z]{1,10}:.{1,50}$/i'' False False
     (anchored
        (Seq (Rep 1 (Some 10) (Cls (lower @ upper)))
        (Seq (Cls '':'')
             (Rep 1 (Some 50) (NotCls [CHR 0x0A, CHR 0x0D])))))"

definition patterns_countryCode :: regexp where
  "patterns_countryCode = RegExp 4 ''/^[a-z]{2}$/'' False False
     (anchored (Rep 2 (Some 2) (Cls lower)))"

text \<open>\<^verbatim>\<open>Object.entries(patterns)\<close>, in the order of the literal.\<close>

definition patterns :: "(string \<times> regexp) list" where
  "patterns =
     [(''uuid'', patterns_uuid), (''slug'', patterns_slug), (''email'', patterns_email),
      (''social'', patterns_social), (''countryCode'', patterns_countryCode)]"

section \<open>Rule sets\<close>

text \<open>
  The literals of the \<^verbatim>\<open>values\<close> rule are primitive values; \<^verbatim>\<open>includes\<close> compares
  them with the value by SameValueZero, under which NaN equals NaN and no object equals
  a primitive.
\<close>

datatype literal = LUndefined | LNull | LBool bool | LNum jsnum | LStr string

fun literal_value :: "literal \<Rightarrow> jsval" where
  "literal_value LUndefined = VUndefined"
| "literal_value LNull = VNull"
| "literal_value (LBool b) = VBool b"
| "literal_value (LNum n) = VNum n"
| "literal_value (LStr s) = VStr s"

fun same_value_zero :: "literal \<Rightarrow> jsval \<Rightarrow> bool" where
  "same_value_zero LUndefined VUndefined = True"
| "same_value_zero LNull VNull = True"
| "same_value_zero (LBool a) (VBool b) = (a = b)"
| "same_value_zero (LNum a) (VNum b) = (a = b)"
| "same_value_zero (LStr a) (VStr b) = (a = b)"
| "same_value_zero l v = False"

definition array_includes :: "literal list \<Rightarrow> jsval \<Rightarrow> bool" where
  "array_includes ls v = list_ex (\<lambda>l. same_value_zero l v) ls"

text \<open>A length or size rule: one number, or the pair \<^verbatim>\<open>[min, max]\<close>.\<close>

datatype bound = Exact jsnum | Between jsnum jsnum

type_synonym coercer = "jsval \<Rightarrow> exn + jsval"

text \<open>
  The six fields every rule set has, then the optional ones (\<open>None\<close>: the property is
  absent), and the \<^verbatim>\<open>props\<close> object: its enumerable entries and its two hidden slots
  \<^verbatim>\<open>__keys__\<close> and \<^verbatim>\<open>__values__\<close>. An entry built from a member that is not a schema holds
  \<^verbatim>\<open>undefined\<close> (\<open>None\<close>) in place of a rule set. Where an entry has the name of a slot,
  the property of that name is the entry, and the slot of the model is not read.
\<close>

datatype rules =
  Rules (rules_required: bool) (rules_null: bool) (rules_coerce: "coercer list")
    (rules_values: "literal list") (rules_union: "rules list") (rules_type: string)
    (rules_length: "bound option") (rules_pattern: "regexp option")
    (rules_integer: "bool option") (rules_range: "(jsval \<times> jsval) option")
    (rules_size: "bound option") (rules_props: "props option")
and props =
  Props (props_entries: "(string \<times> rules option) list") (props_keys: "rules option")
    (props_values: "rules option")

text \<open>
  An object literal handed to \<^verbatim>\<open>setRules\<close> is the list of its fields; the spread
  \<^verbatim>\<open>{...a, ...b}\<close> assigns the fields of \<open>b\<close> over \<open>a\<close>, one by one.
\<close>

datatype field =
    Required bool
  | Null bool
  | Coerce "coercer list"
  | Values "literal list"
  | Union "rules list"
  | Type string
  | Length bound
  | Pattern regexp
  | Integer bool
  | Range jsval jsval
  | Size bound
  | PropsField props

fun assign :: "rules \<Rightarrow> field \<Rightarrow> rules" where
  "assign (Rules a b c d e f g h i j k l) (Required x) = Rules x b c d e f g h i j k l"
| "assign (Rules a b c d e f g h i j k l) (Null x) = Rules a x c d e f g h i j k l"
| "assign (Rules a b c d e f g h i j k l) (Coerce x) = Rules a b x d e f g h i j k l"
| "assign (Rules a b c d e f g h i j k l) (Values x) = Rules a b c x e f g h i j k l"
| "assign (Rules a b c d e f g h i j k l) (Union x) = Rules a b c d x f g h i j k l"
| "assign (Rules a b c d e f g h i j k l) (Type x) = Rules a b c d e x g h i j k l"
| "assign (Rules a b c d e f g h i j k l) (Length x) = Rules a b c d e f (Some x) h i j k l"
| "assign (Rules a b c d e f g h i j k l) (Pattern x) = Rules a b c d e f g (Some x) i j k l"
| "assign (Rules a b c d e f g h i j k l) (Integer x) = Rules a b c d e f g h (Some x) j k l"
| "assign (Rules a b c d e f g h i j k l) (Range x y) = Rules a b c d e f g h i (Some (x, y)) k l"
| "assign (Rules a b c d e f g h i j k l) (Size x) = Rules a b c d e f g h i j (Some x) l"
| "assign (Rules a b c d e f g h i j k l) (PropsField x) = Rules a b c d e f g h i j k (Some x)"

definition spread :: "rules \<Rightarrow> field list \<Rightarrow> rules" where
  "spread r fs = foldl assign r fs"

fun own_fields :: "rules \<Rightarrow> field list" where
  "own_fields (Rules a b c d e f g h i j k l) =
     [Required a, Null b, Coerce c, Values d, Union e, Type f]
     @ (case g of None \<Rightarrow> [] | Some x \<Rightarrow> [Length x])
     @ (case h of None \<Rightarrow> [] | Some x \<Rightarrow> [Pattern x])
     @ (case i of None \<Rightarrow> [] | Some x \<Rightarrow> [Integer x])
     @ (case j of None \<Rightarrow> [] | Some (x, y) \<Rightarrow> [Range x y])
     @ (case k of None \<Rightarrow> [] | Some x \<Rightarrow> [Size x])
     @ (case l of None \<Rightarrow> [] | Some x \<Rightarrow> [PropsField x])"

text \<open>\<^verbatim>\<open>rules = {required: true, null: false, coerce: [], values: [], union: [], type: "string"}\<close>\<close>

definition defaults :: rules where
  "defaults = Rules True False [] [] [] ''string'' None None None None None None"

section \<open>Violations\<close>

text \<open>
  A path segment is a property key, or the number an array index is. A message is the
  template literal of the source with the interpolated values kept as values.
\<close>

datatype key = KStr string | KNum nat

datatype part = Lit string | Val jsval

type_synonym message = "part list"

type_synonym violation = "key list \<times> message"

type_synonym result = "bool \<times> violation list"

type_synonym outcome = "(exn + result) \<times> store"

definition is_digit :: "char \<Rightarrow> bool" where
  "is_digit c = (c \<in> set digits)"

text \<open>
  \<^verbatim>\<open>key.replace(/\.([0-9]+)(?=\.|$)/g, "[$1]")\<close>: a dot and the run of digits after it
  become the digits in brackets when the run ends the key or stands before a dot.
\<close>

function replace_index :: "string \<Rightarrow> string" where
  "replace_index [] = []"
| "replace_index (c # cs) =
     (if c = CHR ''.'' \<and> takeWhile is_digit cs \<noteq> []
         \<and> (case dropWhile is_digit cs of [] \<Rightarrow> True | r # rs \<Rightarrow> r = CHR ''.'')
      then ''['' @ takeWhile is_digit cs @ '']'' @ replace_index (dropWhile is_digit cs)
      else c # replace_index cs)"
  by pat_completeness auto
termination
  by (relation "measure length") (auto simp: le_imp_less_Suc length_dropWhile_le)

text \<open>A number has no \<^verbatim>\<open>replace\<close> method: calling it is a TypeError.\<close>

fun replace_key :: "key \<Rightarrow> exn + key" where
  "replace_key (KStr s) = Inr (KStr (replace_index s))"
| "replace_key (KNum n) = Inl TypeError"

fun map_replace :: "key list \<Rightarrow> exn + key list" where
  "map_replace [] = Inr []"
| "map_replace (k # ks) =
     (case replace_key k of
        Inl e \<Rightarrow> Inl e
      | Inr k' \<Rightarrow> (case map_replace ks of Inl e \<Rightarrow> Inl e | Inr ks' \<Rightarrow> Inr (k' # ks')))"

text \<open>\<^verbatim>\<open>const error = message => [false, [[path.map(...), message]]]\<close>\<close>

definition error :: "key list \<Rightarrow> message \<Rightarrow> exn + result" where
  "error path message =
     (case map_replace path of Inl e \<Rightarrow> Inl e | Inr p \<Rightarrow> Inr (False, [(p, message)]))"

section \<open>The matcher\<close>

text \<open>\<^verbatim>\<open>rules.coerce.reduce((value_, coercer) => coercer(value_), value)\<close>\<close>

fun reduce_coerce :: "coercer list \<Rightarrow> jsval \<Rightarrow> exn + jsval" where
  "reduce_coerce [] v = Inr v"
| "reduce_coerce (c # cs) v = (case c v of Inl e \<Rightarrow> Inl e | Inr v' \<Rightarrow> reduce_coerce cs v')"

text \<open>The two reductions of a list of results, for a union and for a container.\<close>

definition reduce_or :: "result list \<Rightarrow> result" where
  "reduce_or results =
     foldl (\<lambda>(valid1, messages1) (valid2, messages2). (valid1 \<or> valid2, messages1 @ messages2))
       (False, []) results"

definition reduce_and :: "result list \<Rightarrow> result" where
  "reduce_and results =
     foldl (\<lambda>(valid1, messages1) (valid2, messages2). (valid1 \<and> valid2, messages1 @ messages2))
       (True, []) results"

text \<open>
  \<^verbatim>\<open>xs.map(f)\<close> where \<open>f\<close> may throw and may move the store: the elements in order, and the
  first exception ends the loop.
\<close>

fun mapM :: "('a \<Rightarrow> store \<Rightarrow> (exn + 'b) \<times> store) \<Rightarrow> 'a list \<Rightarrow> store \<Rightarrow> (exn + 'b list) \<times> store"
where
  "mapM f [] st = (Inr [], st)"
| "mapM f (x # xs) st =
     (case f x st of
        (Inl e, st1) \<Rightarrow> (Inl e, st1)
      | (Inr y, st1) \<Rightarrow>
          (case mapM f xs st1 of
             (Inl e, st2) \<Rightarrow> (Inl e, st2)
           | (Inr ys, st2) \<Rightarrow> (Inr (y # ys), st2)))"

text \<open>The decimal form of an index, as \<^verbatim>\<open>i in rules.props\<close> and \<^verbatim>\<open>value[key]\<close> need it.\<close>

function show_nat :: "nat \<Rightarrow> string" where
  "show_nat n = (if n < 10 then [digits ! n] else show_nat (n div 10) @ [digits ! (n mod 10)])"
  by pat_completeness auto
termination
  by (relation "measure id") auto

declare show_nat.simps [simp del]

text \<open>
  The properties of \<^verbatim>\<open>Object.prototype\<close>, which every object and array inherits, and those
  of \<^verbatim>\<open>Array.prototype\<close> besides its \<^verbatim>\<open>length\<close>.
\<close>

definition object_prototype_names :: "string list" where
  "object_prototype_names =
     [''constructor'', ''__defineGetter__'', ''__defineSetter__'', ''hasOwnProperty'',
      ''__lookupGetter__'', ''__lookupSetter__'', ''isPrototypeOf'', ''propertyIsEnumerable'',
      ''toString'', ''valueOf'', ''__proto__'', ''toLocaleString'']"

definition array_prototype_names :: "string list" where
  "array_prototype_names =
     [''constructor'', ''at'', ''concat'', ''copyWithin'', ''fill'', ''find'', ''findIndex'',
      ''findLast'', ''findLastIndex'', ''lastIndexOf'', ''pop'', ''push'', ''reverse'', ''shift'',
      ''unshift'', ''slice'', ''sort'', ''splice'', ''includes'', ''indexOf'', ''join'', ''keys'',
      ''entries'', ''values'', ''forEach'', ''filter'', ''flat'', ''flatMap'', ''map'', ''every'',
      ''some'', ''reduce'', ''reduceRight'', ''toReversed'', ''toSorted'', ''toSpliced'', ''with'',
      ''toLocaleString'', ''toString'']"

text \<open>
  What a value finds under a key in \<^verbatim>\<open>Object.prototype\<close>: the function \<^verbatim>\<open>Object\<close> as its
  constructor, its own prototype \<open>proto\<close> from the getter \<^verbatim>\<open>__proto__\<close>, a method under
  each other name, and nothing else. \<^verbatim>\<open>Array.prototype\<close> comes before it for an array: the
  function \<^verbatim>\<open>Array\<close> as its constructor, and a method under each other name. The
  getter \<^verbatim>\<open>__proto__\<close> is the one of Annex B of the language, which an engine is free
  to leave out.
\<close>

definition from_object_prototype :: "jsval \<Rightarrow> string \<Rightarrow> jsval" where
  "from_object_prototype proto key =
     (if key = ''constructor'' then VObjectFunction
      else if key = ''__proto__'' then proto
      else if key \<in> set object_prototype_names then VOther
      else VUndefined)"

definition from_array_prototype :: "jsval \<Rightarrow> string \<Rightarrow> jsval" where
  "from_array_prototype proto key =
     (if key \<in> set array_prototype_names then VOther else from_object_prototype proto key)"

text \<open>
  \<^verbatim>\<open>value[key]\<close> on an object and on an array: the own property, and otherwise the
  inherited one.
\<close>

definition get_prop :: "(string \<times> jsval) list \<Rightarrow> string \<Rightarrow> jsval" where
  "get_prop fs key =
     (case map_of fs key of
        None \<Rightarrow> from_object_prototype VObjectPrototype key
      | Some v \<Rightarrow> v)"

definition get_item :: "jsval list \<Rightarrow> string \<Rightarrow> jsval" where
  "get_item xs key =
     (case find (\<lambda>i. show_nat i = key) [0 ..< length xs] of
        Some i \<Rightarrow> xs ! i
      | None \<Rightarrow>
          if key = ''length'' then VNum (Finite (of_nat (length xs)))
          else from_array_prototype VArrayPrototype key)"

text \<open>
  \<^verbatim>\<open>value[key]\<close> on each value that \<^verbatim>\<open>isObject\<close> or \<^verbatim>\<open>isArray\<close> accepts; the source
  evaluates it on no other. The prototype of \<^verbatim>\<open>Object.prototype\<close> is \<^verbatim>\<open>null\<close>, and that of
  \<^verbatim>\<open>Array.prototype\<close>, whose \<^verbatim>\<open>length\<close> is 0, is \<^verbatim>\<open>Object.prototype\<close>.
\<close>

fun value_at :: "jsval \<Rightarrow> string \<Rightarrow> jsval" where
  "value_at (VObj fs) key = get_prop fs key"
| "value_at VObjectPrototype key = from_object_prototype VNull key"
| "value_at (VArr xs) key = get_item xs key"
| "value_at VArrayPrototype key =
     (if key = ''length'' then VNum (Finite 0) else from_array_prototype VObjectPrototype key)"
| "value_at v key = VUndefined"

text \<open>
  \<^verbatim>\<open>key in rules.props\<close>: an entry, one of the two slots, which \<^verbatim>\<open>defineProperty\<close> always
  creates, or a name that \<^verbatim>\<open>props\<close>, made by \<^verbatim>\<open>Object.fromEntries\<close>, inherits from
  \<^verbatim>\<open>Object.prototype\<close>.
\<close>

definition in_props :: "string \<Rightarrow> props \<Rightarrow> bool" where
  "in_props key ps =
     (key \<in> set (map fst (props_entries ps)) \<or> key = ''__keys__'' \<or> key = ''__values__''
      \<or> key \<in> set object_prototype_names)"

text \<open>
  \<^verbatim>\<open>isObject(rules.props)\<close> for a \<^verbatim>\<open>props\<close> that is there: its constructor is \<^verbatim>\<open>Object\<close>
  unless an entry named \<^verbatim>\<open>constructor\<close>, whose value is a rule set or \<^verbatim>\<open>undefined\<close>, hides
  the inherited one.
\<close>

definition props_isObject :: "props \<Rightarrow> bool" where
  "props_isObject ps = (''constructor'' \<notin> set (map fst (props_entries ps)))"

text \<open>
  \<^verbatim>\<open>rules.props.__keys__\<close> and \<^verbatim>\<open>rules.props.__values__\<close>: the own property of that name,
  which is the entry of that name where there is one, and otherwise the slot.
\<close>

definition keys_slot :: "props \<Rightarrow> rules option" where
  "keys_slot ps =
     (case map_of (props_entries ps) ''__keys__'' of None \<Rightarrow> props_keys ps | Some r \<Rightarrow> r)"

definition values_slot :: "props \<Rightarrow> rules option" where
  "values_slot ps =
     (case map_of (props_entries ps) ''__values__'' of None \<Rightarrow> props_values ps | Some r \<Rightarrow> r)"

text \<open>\<^verbatim>\<open>new Set(a).isSupersetOf(new Set(b))\<close>\<close>

definition isSupersetOf :: "string list \<Rightarrow> string list \<Rightarrow> bool" where
  "isSupersetOf a b = list_all (\<lambda>k. k \<in> set a) b"

subsection \<open>The kinds without structure\<close>

definition string_length :: "bound option \<Rightarrow> nat \<Rightarrow> message option" where
  "string_length b n =
     (case b of
        None \<Rightarrow> None
      | Some (Exact k) \<Rightarrow>
          if num_neq (Finite (of_nat n)) k
          then Some [Lit ''length is not '', Val (VNum k), Lit ''.'']
          else None
      | Some (Between lo hi) \<Rightarrow>
          if num_lt (Finite (of_nat n)) lo
          then Some [Lit ''is shorter than '', Val (VNum lo), Lit '' characters.'']
          else if num_lt hi (Finite (of_nat n))
          then Some [Lit ''is longer than '', Val (VNum hi), Lit '' characters.'']
          else None)"

text \<open>
  The pattern rule. The name of the pattern is looked up in the table by identity, and
  the pair found is destructured at once: when nothing is found, \<^verbatim>\<open>const [key] = undefined\<close>
  is a TypeError.
\<close>

definition string_pattern :: "regexp option \<Rightarrow> string \<Rightarrow> key list \<Rightarrow> store \<Rightarrow> outcome" where
  "string_pattern pat s path st =
     (case pat of
        None \<Rightarrow> (Inr (True, []), st)
      | Some p \<Rightarrow>
          (case test p s st of
             (True, st1) \<Rightarrow> (Inr (True, []), st1)
           | (False, st1) \<Rightarrow>
               (case find (\<lambda>(name, q). re_id q = re_id p) patterns of
                  None \<Rightarrow> (Inl TypeError, st1)
                | Some (name, q) \<Rightarrow>
                    (error path
                       [Lit ''does not match the pattern `'',
                        (if name \<noteq> [] then Lit name else Val (VRegExp p)),
                        Lit ''`.''],
                     st1))))"

definition string_rules :: "rules \<Rightarrow> jsval \<Rightarrow> key list \<Rightarrow> store \<Rightarrow> outcome" where
  "string_rules rules v path st =
     (case v of
        VStr s \<Rightarrow>
          (case string_length (rules_length rules) (length s) of
             Some m \<Rightarrow> (error path m, st)
           | None \<Rightarrow> string_pattern (rules_pattern rules) s path st)
      | _ \<Rightarrow> (error path [Lit ''is not a string.''], st))"

text \<open>\<^verbatim>\<open>isNumber(min) && value < min\<close> and \<^verbatim>\<open>isNumber(max) && value > max\<close>\<close>

fun less_than :: "jsnum \<Rightarrow> jsval \<Rightarrow> bool" where
  "less_than n (VNum m) = num_lt n m"
| "less_than n v = False"

fun greater_than :: "jsnum \<Rightarrow> jsval \<Rightarrow> bool" where
  "greater_than n (VNum m) = num_lt m n"
| "greater_than n v = False"

definition number_rules :: "rules \<Rightarrow> jsval \<Rightarrow> key list \<Rightarrow> exn + result" where
  "number_rules rules v path =
     (case v of
        VNum n \<Rightarrow>
          if rules_integer rules = Some True \<and> truthy_num (rem1 n)
          then error path [Lit ''is not an integer'']
          else
            (case rules_range rules of
               None \<Rightarrow> Inr (True, [])
             | Some (lo, hi) \<Rightarrow>
                 if less_than n lo then error path [Lit ''is less than '', Val lo, Lit ''.'']
                 else if greater_than n hi then error path [Lit ''is greater than '', Val hi, Lit ''.'']
                 else Inr (True, []))
      | _ \<Rightarrow> error path [Lit ''is not a number''])"

text \<open>
  \<^verbatim>\<open>isDate(min) && value < min\<close>: two dates compare by their time values, which are NaN
  for an invalid date.
\<close>

fun before :: "jsnum \<Rightarrow> jsval \<Rightarrow> bool" where
  "before t (VDate m) = num_lt t m"
| "before t v = False"

fun after :: "jsnum \<Rightarrow> jsval \<Rightarrow> bool" where
  "after t (VDate m) = num_lt m t"
| "after t v = False"

definition date_rules :: "rules \<Rightarrow> jsval \<Rightarrow> key list \<Rightarrow> exn + result" where
  "date_rules rules v path =
     (case v of
        VDate t \<Rightarrow>
          (case rules_range rules of
             None \<Rightarrow> Inr (True, [])
           | Some (lo, hi) \<Rightarrow>
               if before t lo then error path [Lit ''is before '', Val lo, Lit ''.'']
               else if after t hi then error path [Lit ''is after '', Val hi, Lit ''.'']
               else Inr (True, []))
      | _ \<Rightarrow> error path [Lit ''is not a date.''])"

definition boolean_rules :: "jsval \<Rightarrow> key list \<Rightarrow> exn + result" where
  "boolean_rules v path =
     (if \<not> isBoolean v then error path [Lit ''is not a boolean.''] else Inr (True, []))"

definition regexp_rules :: "jsval \<Rightarrow> key list \<Rightarrow> exn + result" where
  "regexp_rules v path =
     (if \<not> isRegExp v then error path [Lit ''is not a regular expression.''] else Inr (True, []))"

subsection \<open>Objects and arrays\<close>

definition object_size :: "bound option \<Rightarrow> nat \<Rightarrow> message option" where
  "object_size b n =
     (case b of
        None \<Rightarrow> None
      | Some (Exact k) \<Rightarrow>
          if num_neq (Finite (of_nat n)) k
          then Some [Lit ''does not have exactly '', Val (VNum k),
                     Lit (if k = Finite 1 then '' property.'' else '' properties.'')]
          else None
      | Some (Between lo hi) \<Rightarrow>
          if num_lt (Finite (of_nat n)) lo
          then Some [Lit ''has fewer than '', Val (VNum lo), Lit '' properties.'']
          else if num_lt hi (Finite (of_nat n))
          then Some [Lit ''has more than '', Val (VNum hi), Lit '' properties.'']
          else None)"

definition array_size :: "bound option \<Rightarrow> nat \<Rightarrow> message option" where
  "array_size b n =
     (case b of
        None \<Rightarrow> None
      | Some (Exact k) \<Rightarrow>
          if num_neq (Finite (of_nat n)) k
          then Some [Lit ''does not have exactly '', Val (VNum k),
                     Lit (if k = Finite 1 then '' item.'' else '' items.'')]
          else None
      | Some (Between lo hi) \<Rightarrow>
          if num_lt (Finite (of_nat n)) lo
          then Some [Lit ''has fewer than '', Val (VNum lo), Lit '' items.'']
          else if num_lt hi (Finite (of_nat n))
          then Some [Lit ''has more than '', Val (VNum hi), Lit '' items.'']
          else None)"

text \<open>
  The recursive calls a container makes, as the arguments \<^verbatim>\<open>(value, rules, path)\<close> of
  each, in the order the source makes them: the named members, then the keys that are
  not named, then the values that are not named.
\<close>

type_synonym call = "jsval \<times> rules option \<times> key list"

definition object_calls :: "props \<Rightarrow> jsval \<Rightarrow> key list \<Rightarrow> call list" where
  "object_calls ps v path =
     map (\<lambda>(key, rules1). (value_at v key, rules1, path @ [KStr key])) (props_entries ps)
     @ (case keys_slot ps of
          None \<Rightarrow> []
        | Some kr \<Rightarrow>
            map (\<lambda>(key, value1). (VStr key, Some kr, path @ [KStr (key @ ''*'')]))
              (filter (\<lambda>(key, value1). \<not> in_props key ps) (Object_entries v)))
     @ (case values_slot ps of
          None \<Rightarrow> []
        | Some vr \<Rightarrow>
            map (\<lambda>(key, value1). (value1, Some vr, path @ [KStr key]))
              (filter (\<lambda>(key, value1). \<not> in_props key ps) (Object_entries v)))"

definition array_calls :: "props \<Rightarrow> jsval \<Rightarrow> key list \<Rightarrow> call list" where
  "array_calls ps v path =
     map (\<lambda>(key, rules1). (value_at v key, rules1, path @ [KStr key])) (props_entries ps)
     @ (case values_slot ps of
          None \<Rightarrow> []
        | Some vr \<Rightarrow>
            map (\<lambda>(i, value1). (value1, Some vr, path @ [KNum i]))
              (filter (\<lambda>(i, value1). \<not> in_props (show_nat i) ps) (enumerate 0 (items v))))"

text \<open>\<^verbatim>\<open>if(!valid) { return [false, messages]; }\<close>, and \<^verbatim>\<open>[true, []]\<close> after the switch.\<close>

definition container_result :: "result list \<Rightarrow> result" where
  "container_result results =
     (case reduce_and results of (valid, messages) \<Rightarrow>
        if \<not> valid then (False, messages) else (True, []))"

definition object_rules ::
  "(call \<Rightarrow> store \<Rightarrow> outcome) \<Rightarrow> rules \<Rightarrow> jsval \<Rightarrow> key list \<Rightarrow> store \<Rightarrow> outcome"
where
  "object_rules validate1 rules v path st =
     (if \<not> isObject v then (error path [Lit ''is not an object.''], st)
      else
        (case object_size (rules_size rules) (length (Object_entries v)) of
           Some m \<Rightarrow> (error path m, st)
         | None \<Rightarrow>
             (case rules_props rules of
                None \<Rightarrow> (Inr (True, []), st)
              | Some ps \<Rightarrow>
                  if \<not> props_isObject ps then (Inr (True, []), st)
                  else if (keys_slot ps = None \<and> values_slot ps = None)
                     \<and> \<not> isSupersetOf (map fst (props_entries ps)) (map fst (Object_entries v))
                  then (error path [Lit ''contains unspecified properties.''], st)
                  else
                    (case mapM validate1 (object_calls ps v path) st of
                       (Inl e, st1) \<Rightarrow> (Inl e, st1)
                     | (Inr results, st1) \<Rightarrow> (Inr (container_result results), st1)))))"

definition array_rules ::
  "(call \<Rightarrow> store \<Rightarrow> outcome) \<Rightarrow> rules \<Rightarrow> jsval \<Rightarrow> key list \<Rightarrow> store \<Rightarrow> outcome"
where
  "array_rules validate1 rules v path st =
     (if \<not> isArray v then (error path [Lit ''is not an array.''], st)
      else
        (case array_size (rules_size rules) (length (items v)) of
           Some m \<Rightarrow> (error path m, st)
         | None \<Rightarrow>
             (case rules_props rules of
                None \<Rightarrow> (Inr (True, []), st)
              | Some ps \<Rightarrow>
                  if \<not> props_isObject ps then (Inr (True, []), st)
                  else if values_slot ps = None \<and> length (items v) > length (props_entries ps)
                  then (error path [Lit ''contains unspecified items.''], st)
                  else
                    (case mapM validate1 (array_calls ps v path) st of
                       (Inl e, st1) \<Rightarrow> (Inl e, st1)
                     | (Inr results, st1) \<Rightarrow> (Inr (container_result results), st1)))))"

text \<open>\<^verbatim>\<open>switch(rules.type)\<close>: a type that is none of the seven falls through to \<^verbatim>\<open>[true, []]\<close>.\<close>

definition type_rules ::
  "(call \<Rightarrow> store \<Rightarrow> outcome) \<Rightarrow> rules \<Rightarrow> jsval \<Rightarrow> key list \<Rightarrow> store \<Rightarrow> outcome"
where
  "type_rules validate1 rules v path st =
     (if rules_type rules = ''string'' then string_rules rules v path st
      else if rules_type rules = ''number'' then (number_rules rules v path, st)
      else if rules_type rules = ''date'' then (date_rules rules v path, st)
      else if rules_type rules = ''boolean'' then (boolean_rules v path, st)
      else if rules_type rules = ''regexp'' then (regexp_rules v path, st)
      else if rules_type rules = ''object'' then object_rules validate1 rules v path st
      else if rules_type rules = ''array'' then array_rules validate1 rules v path st
      else (Inr (True, []), st))"

text \<open>
  The union rule: every alternative is matched, against
  \<^verbatim>\<open>{...rules, ...rules_, union: []}\<close> and at the same path.
\<close>

definition union_calls :: "rules \<Rightarrow> jsval \<Rightarrow> key list \<Rightarrow> call list" where
  "union_calls rules v path =
     map (\<lambda>rules1. (v, Some (spread (spread rules (own_fields rules1)) [Union []]), path))
       (rules_union rules)"

subsection \<open>validate\<close>

text \<open>
  A schema instance is a reference into the heap, which holds the \<^verbatim>\<open>rules\<close> property of
  every instance.
\<close>

type_synonym schema = nat

type_synonym heap = "rules list"

text \<open>
  \<^verbatim>\<open>validate(value, rules=this.rules, path=[])\<close>. An argument \<open>None\<close> is \<^verbatim>\<open>undefined\<close>, for
  which the default \<^verbatim>\<open>this.rules\<close> stands. The first argument bounds the depth of the
  recursion, as the call stack does: a call that would go deeper is a RangeError.
\<close>

fun validate ::
  "nat \<Rightarrow> heap \<Rightarrow> schema \<Rightarrow> jsval \<Rightarrow> rules option \<Rightarrow> key list \<Rightarrow> store \<Rightarrow> outcome"
where
  "validate 0 h this v rules_arg path st = (Inl RangeError, st)"
| "validate (Suc depth) h this v rules_arg path st =
     (let rules = (case rules_arg of None \<Rightarrow> h ! this | Some r \<Rightarrow> r) in
      if isUndefined v then
        ((if rules_required rules then error path [Lit ''is undefined.''] else Inr (True, [])), st)
      else if isNull v then
        ((if \<not> rules_null rules then error path [Lit ''is null.''] else Inr (True, [])), st)
      else
        (case reduce_coerce (rules_coerce rules) v of
           Inl e \<Rightarrow> (Inl e, st)
         | Inr v1 \<Rightarrow>
             if rules_values rules \<noteq> [] then
               ((if \<not> array_includes (rules_values rules) v1
                 then error path [Lit ''does not equal any required value.'']
                 else Inr (True, [])), st)
             else if rules_union rules \<noteq> [] then
               (case mapM (\<lambda>(v2, rules2, path2). validate depth h this v2 rules2 path2)
                       (union_calls rules v1 path) st of
                  (Inl e, st1) \<Rightarrow> (Inl e, st1)
                | (Inr results, st1) \<Rightarrow> (Inr (reduce_or results), st1))
             else
               type_rules (\<lambda>(v2, rules2, path2). validate depth h this v2 rules2 path2)
                 rules v1 path st))"

section \<open>The builder\<close>

text \<open>\<^verbatim>\<open>new this()\<close>: a fresh instance, its \<^verbatim>\<open>rules\<close> the defaults.\<close>

definition new_Schema :: "heap \<Rightarrow> schema \<times> heap" where
  "new_Schema h = (length h, h @ [defaults])"

text \<open>\<^verbatim>\<open>setRules(rules) { this.rules = {...this.rules, ...rules}; return this; }\<close>\<close>

definition setRules :: "field list \<Rightarrow> schema \<Rightarrow> heap \<Rightarrow> schema \<times> heap" where
  "setRules rules this h = (this, h[this := spread (h ! this) rules])"

text \<open>A static shorthand \<^verbatim>\<open>static get m() { return new this().m; }\<close>\<close>

definition static :: "(schema \<Rightarrow> heap \<Rightarrow> schema \<times> heap) \<Rightarrow> heap \<Rightarrow> schema \<times> heap" where
  "static method h = (case new_Schema h of (this, h1) \<Rightarrow> method this h1)"

definition Schema_isRequired :: "schema \<Rightarrow> heap \<Rightarrow> schema \<times> heap" where
  "Schema_isRequired = setRules [Required True]"

definition Schema_isOptional :: "schema \<Rightarrow> heap \<Rightarrow> schema \<times> heap" where
  "Schema_isOptional = setRules [Required False]"

definition Schema_isNotNull :: "schema \<Rightarrow> heap \<Rightarrow> schema \<times> heap" where
  "Schema_isNotNull = setRules [Null False]"

definition Schema_mayBeNull :: "schema \<Rightarrow> heap \<Rightarrow> schema \<times> heap" where
  "Schema_mayBeNull = setRules [Null True]"

definition Schema_coerce :: "coercer list \<Rightarrow> schema \<Rightarrow> heap \<Rightarrow> schema \<times> heap" where
  "Schema_coerce coercers = setRules [Coerce coercers]"

definition Schema_is :: "literal \<Rightarrow> schema \<Rightarrow> heap \<Rightarrow> schema \<times> heap" where
  "Schema_is v = setRules [Values [v]]"

definition Schema_isAnyOf :: "literal list \<Rightarrow> schema \<Rightarrow> heap \<Rightarrow> schema \<times> heap" where
  "Schema_isAnyOf vs = setRules [Values vs]"

text \<open>\<^verbatim>\<open>isEither(...schemas)\<close> reads the \<^verbatim>\<open>rules\<close> of each schema as they are at the call.\<close>

definition Schema_isEither :: "schema list \<Rightarrow> schema \<Rightarrow> heap \<Rightarrow> schema \<times> heap" where
  "Schema_isEither schemas this h = setRules [Union (map (\<lambda>s. h ! s) schemas)] this h"

definition Schema_isString :: "schema \<Rightarrow> heap \<Rightarrow> schema \<times> heap" where
  "Schema_isString = setRules [Type ''string'']"

definition Schema_isUUID :: "schema \<Rightarrow> heap \<Rightarrow> schema \<times> heap" where
  "Schema_isUUID = setRules [Type ''string'', Pattern patterns_uuid]"

definition Schema_isSlug :: "schema \<Rightarrow> heap \<Rightarrow> schema \<times> heap" where
  "Schema_isSlug =
     setRules [Type ''string'', Pattern patterns_slug, Length (Between (Finite 0) (Finite 20))]"

definition Schema_isEmail :: "schema \<Rightarrow> heap \<Rightarrow> schema \<times> heap" where
  "Schema_isEmail =
     setRules [Type ''string'', Pattern patterns_email, Length (Between (Finite 0) (Finite 100))]"

definition Schema_hasLength :: "schema \<Rightarrow> heap \<Rightarrow> schema \<times> heap" where
  "Schema_hasLength = setRules [Length (Between (Finite 1) Infinity)]"

definition Schema_lengthIsAtLeast :: "jsnum \<Rightarrow> schema \<Rightarrow> heap \<Rightarrow> schema \<times> heap" where
  "Schema_lengthIsAtLeast lo = setRules [Length (Between lo Infinity)]"

definition Schema_lengthIsAtMost :: "jsnum \<Rightarrow> schema \<Rightarrow> heap \<Rightarrow> schema \<times> heap" where
  "Schema_lengthIsAtMost hi = setRules [Length (Between NegInfinity hi)]"

definition Schema_lengthIsBetween :: "jsnum \<Rightarrow> jsnum \<Rightarrow> schema \<Rightarrow> heap \<Rightarrow> schema \<times> heap" where
  "Schema_lengthIsBetween lo hi = setRules [Length (Between lo hi)]"

definition Schema_lengthIs :: "jsnum \<Rightarrow> schema \<Rightarrow> heap \<Rightarrow> schema \<times> heap" where
  "Schema_lengthIs n = setRules [Length (Exact n)]"

definition Schema_matches :: "regexp \<Rightarrow> schema \<Rightarrow> heap \<Rightarrow> schema \<times> heap" where
  "Schema_matches p = setRules [Pattern p]"

definition Schema_isNumber :: "schema \<Rightarrow> heap \<Rightarrow> schema \<times> heap" where
  "Schema_isNumber = setRules [Type ''number'', Integer False]"

definition Schema_isInteger :: "schema \<Rightarrow> heap \<Rightarrow> schema \<times> heap" where
  "Schema_isInteger = setRules [Type ''number'', Integer True]"

definition Schema_isFloat :: "schema \<Rightarrow> heap \<Rightarrow> schema \<times> heap" where
  "Schema_isFloat = Schema_isNumber"

definition Schema_isDate :: "schema \<Rightarrow> heap \<Rightarrow> schema \<times> heap" where
  "Schema_isDate = setRules [Type ''date'']"

definition Schema_isAtLeast :: "jsval \<Rightarrow> schema \<Rightarrow> heap \<Rightarrow> schema \<times> heap" where
  "Schema_isAtLeast lo = setRules [Range lo (VNum Infinity)]"

definition Schema_isAtMost :: "jsval \<Rightarrow> schema \<Rightarrow> heap \<Rightarrow> schema \<times> heap" where
  "Schema_isAtMost hi = setRules [Range (VNum NegInfinity) hi]"

definition Schema_isBetween :: "jsval \<Rightarrow> jsval \<Rightarrow> schema \<Rightarrow> heap \<Rightarrow> schema \<times> heap" where
  "Schema_isBetween lo hi = setRules [Range lo hi]"

definition Schema_isNotBefore :: "jsval \<Rightarrow> schema \<Rightarrow> heap \<Rightarrow> schema \<times> heap" where
  "Schema_isNotBefore lo = Schema_isAtLeast lo"

definition Schema_isNotAfter :: "jsval \<Rightarrow> schema \<Rightarrow> heap \<Rightarrow> schema \<times> heap" where
  "Schema_isNotAfter hi = Schema_isAtMost hi"

definition Schema_isBoolean :: "schema \<Rightarrow> heap \<Rightarrow> schema \<times> heap" where
  "Schema_isBoolean = setRules [Type ''boolean'']"

definition Schema_isRegExp :: "schema \<Rightarrow> heap \<Rightarrow> schema \<times> heap" where
  "Schema_isRegExp = setRules [Type ''regexp'']"

definition Schema_hasExactly :: "jsnum \<Rightarrow> schema \<Rightarrow> heap \<Rightarrow> schema \<times> heap" where
  "Schema_hasExactly n = setRules [Size (Exact n)]"

definition Schema_hasAtLeast :: "jsnum \<Rightarrow> schema \<Rightarrow> heap \<Rightarrow> schema \<times> heap" where
  "Schema_hasAtLeast lo = setRules [Size (Between lo Infinity)]"

definition Schema_hasAtMost :: "jsnum \<Rightarrow> schema \<Rightarrow> heap \<Rightarrow> schema \<times> heap" where
  "Schema_hasAtMost hi = setRules [Size (Between NegInfinity hi)]"

definition Schema_hasBetween :: "jsnum \<Rightarrow> jsnum \<Rightarrow> schema \<Rightarrow> heap \<Rightarrow> schema \<times> heap" where
  "Schema_hasBetween lo hi = setRules [Size (Between lo hi)]"

text \<open>
  A member of the mapping handed to \<^verbatim>\<open>isObject\<close> or \<^verbatim>\<open>isArray\<close> is a schema, or some other
  value that is neither \<^verbatim>\<open>undefined\<close> nor \<^verbatim>\<open>null\<close>, whose \<^verbatim>\<open>rules\<close> property is
  \<^verbatim>\<open>undefined\<close>.
\<close>

datatype member = MSchema schema | MOther

definition member_rules :: "heap \<Rightarrow> member \<Rightarrow> rules option" where
  "member_rules h m = (case m of MSchema s \<Rightarrow> Some (h ! s) | MOther \<Rightarrow> None)"

text \<open>
  \<^verbatim>\<open>#isObject(keys, values, entries={}, type="object")\<close>. The two calls of
  \<^verbatim>\<open>defineProperty\<close> create the slots \<^verbatim>\<open>__keys__\<close> and \<^verbatim>\<open>__values__\<close>, which are not
  enumerable; where \<^verbatim>\<open>entries\<close> has a member of that name, they give the entry that
  \<^verbatim>\<open>fromEntries\<close> made the value of the slot instead, and it stays an entry.
\<close>

definition Schema_isObject_private ::
  "schema option \<Rightarrow> schema option \<Rightarrow> (string \<times> member) list \<Rightarrow> string
     \<Rightarrow> schema \<Rightarrow> heap \<Rightarrow> schema \<times> heap"
where
  "Schema_isObject_private keys vals entries type this h =
     setRules
       [Type type,
        PropsField
          (Props
             (map (\<lambda>(key, m).
                     (key,
                      if key = ''__keys__'' then map_option (\<lambda>s. h ! s) keys
                      else if key = ''__values__'' then map_option (\<lambda>s. h ! s) vals
                      else member_rules h m))
                entries)
             (map_option (\<lambda>s. h ! s) keys) (map_option (\<lambda>s. h ! s) vals))]
       this h"

text \<open>
  The argument lists of \<^verbatim>\<open>isObject(...args)\<close> and \<^verbatim>\<open>isArray(...args)\<close> that the switch on
  \<^verbatim>\<open>args.length\<close> and \<^verbatim>\<open>args[0].constructor\<close> tells apart: none, one schema, one plain
  mapping, which the switch knows by the \<^verbatim>\<open>constructor\<close> it inherits and which therefore
  has no member of that name, or keys, values and (for \<open>Some\<close>) entries, which may have
  any member.
\<close>

datatype args =
    NoArgs
  | OneSchema schema
  | OneMapping "(string \<times> member) list"
  | KeysValues "schema option" "schema option" "(string \<times> member) list option"

fun Schema_isObject :: "args \<Rightarrow> schema \<Rightarrow> heap \<Rightarrow> schema \<times> heap" where
  "Schema_isObject NoArgs = Schema_isObject_private None None [] ''object''"
| "Schema_isObject (OneSchema s) = Schema_isObject_private None (Some s) [] ''object''"
| "Schema_isObject (OneMapping m) = Schema_isObject_private None None m ''object''"
| "Schema_isObject (KeysValues k v e) =
     Schema_isObject_private k v (case e of None \<Rightarrow> [] | Some m \<Rightarrow> m) ''object''"

fun Schema_isArray :: "args \<Rightarrow> schema \<Rightarrow> heap \<Rightarrow> schema \<times> heap" where
  "Schema_isArray NoArgs = Schema_isObject_private None None [] ''array''"
| "Schema_isArray (OneSchema s) = Schema_isObject_private None (Some s) [] ''array''"
| "Schema_isArray (OneMapping m) = Schema_isObject_private None None m ''array''"
| "Schema_isArray (KeysValues k v e) =
     Schema_isObject_private k v (case e of None \<Rightarrow> [] | Some m \<Rightarrow> m) ''array''"

section \<open>The integrity check\<close>

text \<open>
  A rule set as the value it is: a plain object with the six fields every rule set has
  and the optional ones that are present, which stand here in one fixed order (the
  integrity check looks every field up by its name). Its coercers are functions, which
  the integrity check never looks at. The two slots of \<^verbatim>\<open>props\<close> are not enumerable, so
  they are no entries of the object, and the integrity check reads no property of a
  \<^verbatim>\<open>props\<close> by its name.
\<close>

fun bound_value :: "bound \<Rightarrow> jsval" where
  "bound_value (Exact n) = VNum n"
| "bound_value (Between lo hi) = VArr [VNum lo, VNum hi]"

definition optional_field :: "string \<Rightarrow> jsval option \<Rightarrow> (string \<times> jsval) list" where
  "optional_field name v = (case v of None \<Rightarrow> [] | Some x \<Rightarrow> [(name, x)])"

definition or_undefined :: "jsval option \<Rightarrow> jsval" where
  "or_undefined v = (case v of None \<Rightarrow> VUndefined | Some x \<Rightarrow> x)"

primrec rules_value :: "rules \<Rightarrow> jsval" and props_value :: "props \<Rightarrow> jsval" where
  "rules_value (Rules a b c d e f g h i j k l) =
     VObj
       ([(''required'', VBool a), (''null'', VBool b),
         (''coerce'', VArr (map (\<lambda>x. VOther) c)),
         (''values'', VArr (map literal_value d)),
         (''union'', VArr (map rules_value e)),
         (''type'', VStr f)]
        @ optional_field ''length'' (map_option bound_value g)
        @ optional_field ''pattern'' (map_option VRegExp h)
        @ optional_field ''integer'' (map_option VBool i)
        @ optional_field ''range'' (map_option (\<lambda>(lo, hi). VArr [lo, hi]) j)
        @ optional_field ''size'' (map_option bound_value k)
        @ optional_field ''props'' (map_option props_value l))"
| "props_value (Props es kr vr) =
     VObj (map (map_prod id or_undefined) (map (map_prod id (map_option rules_value)) es))"

text \<open>
  The expressions of the object literal in \<^verbatim>\<open>check\<close>, each building its schema in the
  heap: \<^verbatim>\<open>\<mu>.isArray().hasAtLeast(n)\<close> for \<^verbatim>\<open>values\<close> and \<^verbatim>\<open>union\<close>; the integer or pair of
  integers of \<^verbatim>\<open>length\<close> and \<^verbatim>\<open>size\<close>; the number or date of the two ends of \<^verbatim>\<open>range\<close>,
  and \<^verbatim>\<open>range\<close>; and \<^verbatim>\<open>props\<close>. A getter of the receiver is evaluated before the
  arguments of the method called on it.
\<close>

definition check_array_at_least :: "jsnum \<Rightarrow> heap \<Rightarrow> schema \<times> heap" where
  "check_array_at_least n h0 =
     (let (a, h) = static (Schema_isArray NoArgs) h0 in Schema_hasAtLeast n a h)"

definition check_integer_or_pair :: "heap \<Rightarrow> schema \<times> heap" where
  "check_integer_or_pair h0 =
     (let (this, h) = static Schema_isOptional h0;
          (a, h) = static Schema_isInteger h;
          (b0, h) = static Schema_isInteger h;
          (b1, h) = static Schema_isInteger h;
          (b, h) = static (Schema_isArray (OneMapping [(''0'', MSchema b0), (''1'', MSchema b1)])) h;
          (b, h) = Schema_hasExactly (Finite 2) b h
      in Schema_isEither [a, b] this h)"

definition check_number_or_date :: "heap \<Rightarrow> schema \<times> heap" where
  "check_number_or_date h0 =
     (let (a, h) = static Schema_isNumber h0;
          (b, h) = static Schema_isDate h
      in static (Schema_isEither [a, b]) h)"

definition check_range :: "heap \<Rightarrow> schema \<times> heap" where
  "check_range h0 =
     (let (this, h) = static Schema_isOptional h0;
          (a, h) = check_number_or_date h;
          (b, h) = check_number_or_date h;
          (this, h) = Schema_isArray (OneMapping [(''0'', MSchema a), (''1'', MSchema b)]) this h
      in Schema_hasExactly (Finite 2) this h)"

definition check_props :: "heap \<Rightarrow> schema \<times> heap" where
  "check_props h0 =
     (let (this, h) = static Schema_isOptional h0;
          (a, h) = static (Schema_isObject NoArgs) h
      in Schema_isObject (OneSchema a) this h)"

text \<open>
  The schema that \<^verbatim>\<open>check\<close> builds, its members in the order of the object literal. The
  member \<^verbatim>\<open>coerce: \<mu>.isArray\<close> is the static method itself, not a schema.
\<close>

definition check_schema :: "heap \<Rightarrow> schema \<times> heap" where
  "check_schema h0 =
     (let (m_required, h) = static Schema_isBoolean h0;
          (m_null, h) = static Schema_isBoolean h;
          (m_values, h) = check_array_at_least (Finite 1) h;
          (m_union, h) = check_array_at_least (Finite 2) h;
          (m_type, h) =
            static (Schema_isAnyOf
              [LStr ''string'', LStr ''number'', LStr ''date'', LStr ''boolean'', LStr ''regexp'',
               LStr ''object'', LStr ''array'']) h;
          (m_length, h) = check_integer_or_pair h;
          (m_pattern, h) = static Schema_isOptional h;
          (m_pattern, h) = Schema_isRegExp m_pattern h;
          (m_integer, h) = static Schema_isOptional h;
          (m_integer, h) = Schema_isBoolean m_integer h;
          (m_range, h) = check_range h;
          (m_size, h) = check_integer_or_pair h;
          (m_props, h) = check_props h
      in static (Schema_isObject (OneMapping
           [(''required'', MSchema m_required), (''null'', MSchema m_null), (''coerce'', MOther),
            (''values'', MSchema m_values), (''union'', MSchema m_union), (''type'', MSchema m_type),
            (''length'', MSchema m_length), (''pattern'', MSchema m_pattern),
            (''integer'', MSchema m_integer), (''range'', MSchema m_range),
            (''size'', MSchema m_size), (''props'', MSchema m_props)])) h)"

text \<open>\<^verbatim>\<open>check() { return \<mu>.isObject({...}).validate(this.rules); }\<close>\<close>

definition check :: "nat \<Rightarrow> schema \<Rightarrow> heap \<Rightarrow> store \<Rightarrow> outcome \<times> heap" where
  "check depth this h st =
     (case check_schema h of (meta, h1) \<Rightarrow>
        (validate depth h1 meta (rules_value (h1 ! this)) None [] st, h1))"

section \<open>Calls of the builder\<close>

text \<open>
  The chainable operations of a schema instance, one constructor for each getter and
  method of the class, and the call of each.
\<close>

datatype builder_call =
    IsRequired | IsOptional | IsNotNull | MayBeNull
  | CoerceWith "coercer list" | Is literal | IsAnyOf "literal list" | IsEither "schema list"
  | IsString | IsUUID | IsSlug | IsEmail
  | HasLength | LengthIsAtLeast jsnum | LengthIsAtMost jsnum | LengthIsBetween jsnum jsnum
  | LengthIs jsnum | Matches regexp
  | IsNumber | IsInteger | IsFloat | IsDate
  | IsAtLeast jsval | IsAtMost jsval | IsBetween jsval jsval | IsNotBefore jsval | IsNotAfter jsval
  | IsBoolean | IsRegExp | IsObject args | IsArray args
  | HasExactly jsnum | HasAtLeast jsnum | HasAtMost jsnum | HasBetween jsnum jsnum

fun invoke :: "builder_call \<Rightarrow> schema \<Rightarrow> heap \<Rightarrow> schema \<times> heap" where
  "invoke IsRequired = Schema_isRequired"
| "invoke IsOptional = Schema_isOptional"
| "invoke IsNotNull = Schema_isNotNull"
| "invoke MayBeNull = Schema_mayBeNull"
| "invoke (CoerceWith cs) = Schema_coerce cs"
| "invoke (Is v) = Schema_is v"
| "invoke (IsAnyOf vs) = Schema_isAnyOf vs"
| "invoke (IsEither ss) = Schema_isEither ss"
| "invoke IsString = Schema_isString"
| "invoke IsUUID = Schema_isUUID"
| "invoke IsSlug = Schema_isSlug"
| "invoke IsEmail = Schema_isEmail"
| "invoke HasLength = Schema_hasLength"
| "invoke (LengthIsAtLeast lo) = Schema_lengthIsAtLeast lo"
| "invoke (LengthIsAtMost hi) = Schema_lengthIsAtMost hi"
| "invoke (LengthIsBetween lo hi) = Schema_lengthIsBetween lo hi"
| "invoke (LengthIs n) = Schema_lengthIs n"
| "invoke (Matches p) = Schema_matches p"
| "invoke IsNumber = Schema_isNumber"
| "invoke IsInteger = Schema_isInteger"
| "invoke IsFloat = Schema_isFloat"
| "invoke IsDate = Schema_isDate"
| "invoke (IsAtLeast lo) = Schema_isAtLeast lo"
| "invoke (IsAtMost hi) = Schema_isAtMost hi"
| "invoke (IsBetween lo hi) = Schema_isBetween lo hi"
| "invoke (IsNotBefore lo) = Schema_isNotBefore lo"
| "invoke (IsNotAfter hi) = Schema_isNotAfter hi"
| "invoke IsBoolean = Schema_isBoolean"
| "invoke IsRegExp = Schema_isRegExp"
| "invoke (IsObject a) = Schema_isObject a"
| "invoke (IsArray a) = Schema_isArray a"
| "invoke (HasExactly n) = Schema_hasExactly n"
| "invoke (HasAtLeast lo) = Schema_hasAtLeast lo"
| "invoke (HasAtMost hi) = Schema_hasAtMost hi"
| "invoke (HasBetween lo hi) = Schema_hasBetween lo hi"

section \<open>Patterns of the examples\<close>

text \<open>\<^verbatim>\<open>/^a$/\<close>, a pattern that is none of the five named ones.\<close>

definition regexp_a :: regexp where
  "regexp_a = RegExp 5 ''/^a$/'' False False (anchored (Cls ''a''))"

section \<open>The rule sets of the integrity check\<close>

text \<open>
  The rule sets that \<open>check_schema\<close> computes, written out; \<open>check_schema_rules\<close> below
  proves that they are the ones it leaves in the heap.
\<close>

definition meta_boolean :: rules where
  "meta_boolean = Rules True False [] [] [] ''boolean'' None None None None None None"

definition meta_array_at_least :: "jsnum \<Rightarrow> rules" where
  "meta_array_at_least n =
     Rules True False [] [] [] ''array'' None None None None (Some (Between n Infinity))
       (Some (Props [] None None))"

definition meta_type :: rules where
  "meta_type =
     Rules True False []
       [LStr ''string'', LStr ''number'', LStr ''date'', LStr ''boolean'', LStr ''regexp'',
        LStr ''object'', LStr ''array'']
       [] ''string'' None None None None None None"

definition meta_integer :: rules where
  "meta_integer = Rules True False [] [] [] ''number'' None None (Some True) None None None"

definition meta_pair :: rules where
  "meta_pair =
     Rules True False [] [] [] ''array'' None None None None (Some (Exact (Finite 2)))
       (Some (Props [(''0'', Some meta_integer), (''1'', Some meta_integer)] None None))"

definition meta_integer_or_pair :: rules where
  "meta_integer_or_pair =
     Rules False False [] [] [meta_integer, meta_pair] ''string'' None None None None None None"

definition meta_optional_regexp :: rules where
  "meta_optional_regexp = Rules False False [] [] [] ''regexp'' None None None None None None"

definition meta_optional_boolean :: rules where
  "meta_optional_boolean = Rules False False [] [] [] ''boolean'' None None None None None None"

definition meta_number :: rules where
  "meta_number = Rules True False [] [] [] ''number'' None None (Some False) None None None"

definition meta_date :: rules where
  "meta_date = Rules True False [] [] [] ''date'' None None None None None None"

definition meta_number_or_date :: rules where
  "meta_number_or_date =
     Rules True False [] [] [meta_number, meta_date] ''string'' None None None None None None"

definition meta_range :: rules where
  "meta_range =
     Rules False False [] [] [] ''array'' None None None None (Some (Exact (Finite 2)))
       (Some (Props [(''0'', Some meta_number_or_date), (''1'', Some meta_number_or_date)]
          None None))"

definition meta_any_object :: rules where
  "meta_any_object =
     Rules True False [] [] [] ''object'' None None None None None (Some (Props [] None None))"

definition meta_props :: rules where
  "meta_props =
     Rules False False [] [] [] ''object'' None None None None None
       (Some (Props [] None (Some meta_any_object)))"

definition meta_entries :: "(string \<times> rules option) list" where
  "meta_entries =
     [(''required'', Some meta_boolean), (''null'', Some meta_boolean), (''coerce'', None),
      (''values'', Some (meta_array_at_least (Finite 1))),
      (''union'', Some (meta_array_at_least (Finite 2))),
      (''type'', Some meta_type), (''length'', Some meta_integer_or_pair),
      (''pattern'', Some meta_optional_regexp), (''integer'', Some meta_optional_boolean),
      (''range'', Some meta_range), (''size'', Some meta_integer_or_pair),
      (''props'', Some meta_props)]"

definition meta_rules :: rules where
  "meta_rules =
     Rules True False [] [] [] ''object'' None None None None None
       (Some (Props meta_entries None None))"

section \<open>Rule sets of the examples\<close>

text \<open>The rule set of \<^verbatim>\<open>Schema.isObject({a: Schema.isString})\<close>.\<close>

definition members_a :: rules where
  "members_a = spread defaults [Type ''object'',
     PropsField (Props [(''a'', Some (spread defaults [Type ''string'']))] None None)]"

text \<open>The rule set of \<^verbatim>\<open>Schema.isObject({tags: Schema.isArray(Schema.isString)})\<close>.\<close>

definition members_tags :: rules where
  "members_tags = spread defaults [Type ''object'',
     PropsField (Props
       [(''tags'', Some (spread defaults [Type ''array'',
           PropsField (Props [] None (Some (spread defaults [Type ''string''])))]))]
       None None)]"

section \<open>Predicates on rule sets\<close>

text \<open>
  A rule set is stateless when no pattern in it, at any depth (its own, those of the
  alternatives of its union, of its members and of its rules for keys and values), has
  the \<^verbatim>\<open>g\<close> or the \<^verbatim>\<open>y\<close> flag: \<^verbatim>\<open>test\<close> on such a pattern neither reads nor writes
  \<^verbatim>\<open>lastIndex\<close>.
\<close>

definition stateless_pattern :: "regexp option \<Rightarrow> bool" where
  "stateless_pattern p = (case p of None \<Rightarrow> True | Some q \<Rightarrow> \<not> re_global q \<and> \<not> re_sticky q)"

definition all_true :: "bool option \<Rightarrow> bool" where
  "all_true b = (case b of None \<Rightarrow> True | Some x \<Rightarrow> x)"

primrec stateless :: "rules \<Rightarrow> bool" and stateless_props :: "props \<Rightarrow> bool" where
  "stateless (Rules a b c d e f g h i j k l) =
     (stateless_pattern h \<and> list_all id (map stateless e)
      \<and> all_true (map_option stateless_props l))"
| "stateless_props (Props es kr vr) =
     (list_all (\<lambda>(key, r). all_true r) (map (map_prod id (map_option stateless)) es)
      \<and> all_true (map_option stateless kr) \<and> all_true (map_option stateless vr))"

text \<open>
  The members of a rule set are schemas when every entry of every \<^verbatim>\<open>props\<close> in it, at any
  depth, holds a rule set: no member was built from a value that is not a schema.
\<close>

definition is_some :: "bool option \<Rightarrow> bool" where
  "is_some b = (case b of None \<Rightarrow> False | Some x \<Rightarrow> x)"

primrec members_are_schemas :: "rules \<Rightarrow> bool" and props_are_schemas :: "props \<Rightarrow> bool" where
  "members_are_schemas (Rules a b c d e f g h i j k l) =
     (list_all id (map members_are_schemas e) \<and> all_true (map_option props_are_schemas l))"
| "props_are_schemas (Props es kr vr) =
     (list_all (\<lambda>(key, r). is_some r) (map (map_prod id (map_option members_are_schemas)) es)
      \<and> all_true (map_option members_are_schemas kr)
      \<and> all_true (map_option members_are_schemas vr))"

text \<open>A computation leaves the store when its result is the same from every store, which it returns as it was.\<close>

definition leaves_store :: "(store \<Rightarrow> 'a \<times> store) \<Rightarrow> bool" where
  "leaves_store m = (\<exists>r. \<forall>st. m st = (r, st))"

text \<open>The calls whose rule set, if one is passed, is stateless, and those that pass a rule set whose members are schemas.\<close>

definition stateless_call :: "call \<Rightarrow> bool" where
  "stateless_call c = (case c of (v, r, p) \<Rightarrow> all_true (map_option stateless r))"

definition schema_call :: "call \<Rightarrow> bool" where
  "schema_call c = (case c of (v, r, p) \<Rightarrow> is_some (map_option members_are_schemas r))"

text \<open>
  \<^verbatim>\<open>/a/g\<close>: its matcher finds the first \<^verbatim>\<open>a\<close> at or after the index where the search
  starts, and the match ends after it.
\<close>

definition exec_a :: "nat \<Rightarrow> string \<Rightarrow> nat option" where
  "exec_a i s = map_option Suc (find (\<lambda>j. s ! j = CHR ''a'') [i ..< length s])"

definition regexp_a_global :: regexp where
  "regexp_a_global = RegExp 6 ''/a/g'' True False exec_a"

section \<open>Evaluation\<close>

text \<open>The equations that unfold the builder and the matcher on a given input.\<close>

lemmas builder_defs =
  static_def new_Schema_def setRules_def spread_def defaults_def member_rules_def
  Schema_isObject_private_def

lemmas matcher_defs =
  Let_def type_rules_def object_rules_def array_rules_def string_rules_def string_pattern_def
  string_length_def number_rules_def date_rules_def boolean_rules_def regexp_rules_def
  object_size_def array_size_def isSupersetOf_def object_calls_def array_calls_def
  union_calls_def get_prop_def get_item_def error_def container_result_def reduce_and_def
  reduce_or_def array_includes_def in_props_def test_def anchored_def rx_match_def patterns_def
  num_neq_def enumerate_eq_zip props_isObject_def keys_slot_def values_slot_def
  from_object_prototype_def
  from_array_prototype_def object_prototype_names_def array_prototype_names_def

lemmas pattern_defs =
  patterns_uuid_def patterns_slug_def patterns_email_def patterns_social_def
  patterns_countryCode_def hex_def digits_def lower_def upper_def alnum_i_def email_local_def

lemma num_lt_NaN [simp]: "num_lt n NaN = False"
  by (cases n) simp_all

lemma less_than_NaN [simp]: "less_than NaN v = False"
  by (cases v) simp_all

lemma greater_than_NaN [simp]: "greater_than NaN v = False"
  by (cases v) simp_all

lemma show_nat_digit: "n < 10 \<Longrightarrow> show_nat n = [digits ! n]"
  by (simp add: show_nat.simps)

section \<open>The scenario of the identifier and the tags\<close>

text \<open>
  C3. \<^verbatim>\<open>object({id: isUUID, tags: array(isString)})\<close> is matched against
  \<^verbatim>\<open>{id: "not-a-uuid", tags: ["a", 1]}\<close>. The claim is that the call returns invalid with
  two violations, at \<^verbatim>\<open>id\<close> and at \<^verbatim>\<open>tags[1]\<close>. The item rule of the array puts the number
  \<^verbatim>\<open>1\<close> on the path, and the violation for that item calls \<^verbatim>\<open>replace\<close> on it: whatever the
  heap the schemas are built in, the store and the depth allowed beyond the three levels
  of the value, the call ends in a TypeError and returns nothing.
\<close>

theorem C3_numeric_segment_raises:
  "(case static Schema_isUUID h of (sid, h1) \<Rightarrow>
    case static Schema_isString h1 of (sstr, h2) \<Rightarrow>
    case static (Schema_isArray (OneSchema sstr)) h2 of (sarr, h3) \<Rightarrow>
    case static (Schema_isObject
           (OneMapping [(''id'', MSchema sid), (''tags'', MSchema sarr)])) h3 of (sobj, h4) \<Rightarrow>
      validate (Suc (Suc (Suc depth))) h4 sobj
        (VObj [(''id'', VStr ''not-a-uuid''), (''tags'', VArr [VStr ''a'', VNum (Finite 1)])])
        None [] st)
   = (Inl TypeError, st)"
  by (simp add: builder_defs Schema_isUUID_def Schema_isString_def nth_append matcher_defs
      pattern_defs show_nat_digit)

section \<open>Validity and the list of violations\<close>

text \<open>
  C1. The claim is that a match is valid exactly when its list of violations is empty,
  also under a union rule. The union rule returns the reduction of the alternatives'
  results as it is, so the violations of an alternative that failed stay in the result
  of a union that another alternative made valid: \<^verbatim>\<open>isEither(isNumber, isString)\<close> on the
  string \<^verbatim>\<open>"x"\<close> is valid with the violation of the number alternative. The container
  rules return the messages only when the reduction is invalid.
\<close>

theorem C1_union_keeps_violations_when_valid:
  "(case static Schema_isNumber h of (a, h1) \<Rightarrow>
    case static Schema_isString h1 of (b, h2) \<Rightarrow>
    case static (Schema_isEither [a, b]) h2 of (e, h3) \<Rightarrow>
      validate (Suc (Suc depth)) h3 e (VStr ''x'') None [] st)
   = (Inr (True, [([], [Lit ''is not a number''])]), st)"
  by (simp add: builder_defs Schema_isNumber_def Schema_isString_def Schema_isEither_def
      nth_append matcher_defs)

section \<open>The builder and its receiver\<close>

lemmas Schema_defs =
  Schema_isRequired_def Schema_isOptional_def Schema_isNotNull_def Schema_mayBeNull_def
  Schema_coerce_def Schema_is_def Schema_isAnyOf_def Schema_isEither_def Schema_isString_def
  Schema_isUUID_def Schema_isSlug_def Schema_isEmail_def Schema_hasLength_def
  Schema_lengthIsAtLeast_def Schema_lengthIsAtMost_def Schema_lengthIsBetween_def
  Schema_lengthIs_def Schema_matches_def Schema_isNumber_def Schema_isInteger_def
  Schema_isFloat_def Schema_isDate_def Schema_isAtLeast_def Schema_isAtMost_def
  Schema_isBetween_def Schema_isNotBefore_def Schema_isNotAfter_def Schema_isBoolean_def
  Schema_isRegExp_def Schema_hasExactly_def Schema_hasAtLeast_def Schema_hasAtMost_def
  Schema_hasBetween_def Schema_isObject_private_def

lemma invoke_setRules: "\<exists>fs. invoke c this h = setRules fs this h"
proof (cases c)
  case (IsObject a)
  then show ?thesis by (cases a) (auto simp: Schema_defs)
next
  case (IsArray a)
  then show ?thesis by (cases a) (auto simp: Schema_defs)
qed (auto simp: Schema_defs)

text \<open>
  C2, as the code has it. The claim is that an operation on an existing instance returns
  a new schema and leaves the receiver unchanged. It returns the receiver: \<^verbatim>\<open>setRules\<close>
  assigns to \<^verbatim>\<open>this.rules\<close> the receiver's rule set merged with the new fields and returns
  \<^verbatim>\<open>this\<close>, and every operation of the builder is such a call of \<^verbatim>\<open>setRules\<close>. What is
  left unchanged is every other instance; and a static shorthand works on an instance
  made for it, whose rule set is the defaults merged with the new fields.
\<close>

theorem C2_builder_updates_receiver:
  assumes "this < length h"
  shows "(case setRules fs this h of (s, h1) \<Rightarrow>
            s = this \<and> length h1 = length h \<and> h1 ! this = spread (h ! this) fs
            \<and> (\<forall>s'. s' \<noteq> this \<longrightarrow> h1 ! s' = h ! s'))
         \<and> (case static (setRules fs) h of (s, h1) \<Rightarrow>
            s = length h \<and> length h1 = Suc (length h) \<and> h1 ! s = spread defaults fs
            \<and> (\<forall>s'. s' < length h \<longrightarrow> h1 ! s' = h ! s'))
         \<and> (\<exists>fs'. invoke c this h = setRules fs' this h)"
  using assms invoke_setRules [of c this h]
  by (simp add: setRules_def static_def new_Schema_def nth_append)

theorem C2_builder_updates_receiver_witness:
  "(0::nat) < length [defaults]
   \<and> setRules [Required False] 0 [defaults] = (0, [spread defaults [Required False]])
   \<and> static (setRules [Required False]) [defaults]
       = (1, [defaults, spread defaults [Required False]])"
  using C2_builder_updates_receiver [where this = 0 and h = "[defaults]"
      and fs = "[Required False]" and c = IsOptional]
  by (simp add: setRules_def static_def new_Schema_def)

text \<open>
  The claim fails on \<^verbatim>\<open>const a = Schema.isString; const b = a.isOptional;\<close>: \<open>b\<close> is \<open>a\<close>
  itself, and \<open>a\<close>, which required its value before the call, no longer does.
\<close>

theorem C2_receiver_is_mutated:
  "(case static Schema_isString [] of (a, h1) \<Rightarrow>
    case Schema_isOptional a h1 of (b, h2) \<Rightarrow>
      b = a \<and> rules_required (h1 ! a) \<and> \<not> rules_required (h2 ! a))"
  by (simp add: Schema_isString_def Schema_isOptional_def builder_defs)

section \<open>A pattern that has no name\<close>

text \<open>
  C4. The claim is that a string failing a pattern that is not in the table of named
  patterns gets a violation that prints the pattern. The lookup of the name finds
  nothing for such a pattern and its result is destructured before the fallback
  \<^verbatim>\<open>key || rules.pattern\<close> is reached: for every rule set of type string with such a
  pattern and no coercer, literal or alternative, and every string that passes the
  length rule and fails the pattern, the call ends in a TypeError.
\<close>

theorem C4_unlisted_pattern_raises:
  assumes "re_id p \<notin> set (map (\<lambda>(name, q). re_id q) patterns)"
    and "rules_type rules = ''string''" and "rules_pattern rules = Some p"
    and "rules_coerce rules = []" and "rules_values rules = []" and "rules_union rules = []"
    and "string_length (rules_length rules) (length s) = None"
    and "test p s st = (False, st1)"
  shows "validate (Suc depth) h this (VStr s) (Some rules) path st = (Inl TypeError, st1)"
proof -
  have "find (\<lambda>(name, q). re_id q = re_id p) patterns = None"
    using assms(1) by (force simp: find_None_iff)
  with assms(2-) show ?thesis
    by (simp add: type_rules_def string_rules_def string_pattern_def)
qed

theorem C4_unlisted_pattern_raises_witness:
  "test regexp_a ''b'' (\<lambda>i. 0) = (False, \<lambda>i. 0)
   \<and> validate (Suc 0) [] 0 (VStr ''b'') (Some (spread defaults [Pattern regexp_a])) [] (\<lambda>i. 0)
       = (Inl TypeError, \<lambda>i. 0)"
  using C4_unlisted_pattern_raises [where p = regexp_a and s = "''b''" and st = "\<lambda>i. 0"
      and ?st1.0 = "\<lambda>i. 0" and rules = "spread defaults [Pattern regexp_a]" and depth = 0
      and h = "[]" and this = 0 and path = "[]"]
  by (simp add: spread_def defaults_def regexp_a_def matcher_defs pattern_defs)

section \<open>Numbers that are not finite\<close>

text \<open>
  C10. NaN, Infinity and -Infinity are numbers to the number kind and pass the integer
  rule, since the remainder by 1 of each is NaN, which is falsy. NaN passes every range,
  since it is neither less nor greater than any bound: \<^verbatim>\<open>isInteger.isBetween(0, 10)\<close>
  accepts NaN with no violation. The integer rule does refuse a finite number with a
  fractional part.
\<close>

theorem C10_non_finite_numbers_pass:
  "validate (Suc depth) h this (VNum NaN)
       (Some (spread defaults [Type ''number'', Integer True, Range lo hi])) path st
     = (Inr (True, []), st)
   \<and> validate (Suc depth) h this (VNum Infinity)
       (Some (spread defaults [Type ''number'', Integer True])) path st
     = (Inr (True, []), st)
   \<and> validate (Suc depth) h this (VNum NegInfinity)
       (Some (spread defaults [Type ''number'', Integer True])) path st
     = (Inr (True, []), st)
   \<and> (case static Schema_isInteger h of (s, h1) \<Rightarrow>
       case Schema_isBetween (VNum (Finite 0)) (VNum (Finite 10)) s h1 of (s, h2) \<Rightarrow>
         validate (Suc depth) h2 s (VNum NaN) None [] st)
     = (Inr (True, []), st)
   \<and> validate (Suc depth) h this (VNum (Finite (3 / 2)))
       (Some (spread defaults [Type ''number'', Integer True])) [] st
     = (Inr (False, [([], [Lit ''is not an integer''])]), st)"
  by (simp add: builder_defs Schema_isInteger_def Schema_isBetween_def matcher_defs)

section \<open>Reductions\<close>

lemma foldl_and:
  "foldl (\<lambda>(valid1, messages1) (valid2, messages2). (valid1 \<and> valid2, messages1 @ messages2))
       (b, ms) rs
     = (b \<and> list_all fst rs, ms @ concat (map snd rs))"
  by (induction rs arbitrary: b ms) (auto simp: case_prod_beta)

lemma reduce_and_eq: "reduce_and rs = (list_all fst rs, concat (map snd rs))"
  by (simp add: reduce_and_def foldl_and)

lemma foldl_or:
  "foldl (\<lambda>(valid1, messages1) (valid2, messages2). (valid1 \<or> valid2, messages1 @ messages2))
       (b, ms) rs
     = (b \<or> list_ex fst rs, ms @ concat (map snd rs))"
  by (induction rs arbitrary: b ms) (auto simp: case_prod_beta)

lemma reduce_or_eq: "reduce_or rs = (list_ex fst rs, concat (map snd rs))"
  by (simp add: reduce_or_def foldl_or)

lemma container_result_eq:
  "container_result rs = (if list_all fst rs then (True, []) else (False, concat (map snd rs)))"
  by (simp add: container_result_def reduce_and_eq)

section \<open>Properties that are not specified\<close>

lemma mapM_chain:
  assumes "length rs = length cs" and "length sts = Suc (length cs)"
    and "\<forall>i<length cs. f (cs ! i) (sts ! i) = (Inr (rs ! i), sts ! Suc i)"
  shows "mapM f cs (sts ! 0) = (Inr rs, sts ! length cs)"
  using assms
proof (induction cs arbitrary: rs sts)
  case Nil
  then show ?case by simp
next
  case (Cons c cs)
  from Cons.prems(1) obtain r rs' where rs: "rs = r # rs'" by (cases rs) auto
  from Cons.prems(2) obtain s sts' where sts: "sts = s # sts'" by (cases sts) auto
  have first: "f c s = (Inr r, sts' ! 0)"
    using Cons.prems(3) [rule_format, of 0] by (simp add: rs sts)
  have "mapM f cs (sts' ! 0) = (Inr rs', sts' ! length cs)"
  proof (rule Cons.IH)
    show "length rs' = length cs" using Cons.prems(1) by (simp add: rs)
    show "length sts' = Suc (length cs)" using Cons.prems(2) by (simp add: sts)
    show "\<forall>i<length cs. f (cs ! i) (sts' ! i) = (Inr (rs' ! i), sts' ! Suc i)"
    proof (intro allI impI)
      fix i
      assume "i < length cs"
      then show "f (cs ! i) (sts' ! i) = (Inr (rs' ! i), sts' ! Suc i)"
        using Cons.prems(3) [rule_format, of "Suc i"] by (simp add: rs sts)
    qed
  qed
  with first show ?case by (simp add: rs sts)
qed

lemma mapM_chain_raises:
  assumes "j < length cs" and "length rs = j" and "length sts = Suc j"
    and "\<forall>i<j. f (cs ! i) (sts ! i) = (Inr (rs ! i), sts ! Suc i)"
    and "f (cs ! j) (sts ! j) = (Inl e, st')"
  shows "mapM f cs (sts ! 0) = (Inl e, st')"
  using assms
proof (induction cs arbitrary: j rs sts)
  case Nil
  then show ?case by simp
next
  case (Cons c cs)
  from Cons.prems(3) obtain s sts' where sts: "sts = s # sts'" by (cases sts) auto
  show ?case
  proof (cases j)
    case 0
    with Cons.prems(5) show ?thesis by (simp add: sts)
  next
    case (Suc k)
    from Cons.prems(2) Suc obtain r rs' where rs: "rs = r # rs'" by (cases rs) auto
    have first: "f c s = (Inr r, sts' ! 0)"
      using Cons.prems(4) [rule_format, of 0] Suc by (simp add: rs sts)
    have "mapM f cs (sts' ! 0) = (Inl e, st')"
    proof (rule Cons.IH [of k rs' sts'])
      show "k < length cs" using Cons.prems(1) Suc by simp
      show "length rs' = k" using Cons.prems(2) Suc by (simp add: rs)
      show "length sts' = Suc k" using Cons.prems(3) Suc by (simp add: sts)
      show "\<forall>i<k. f (cs ! i) (sts' ! i) = (Inr (rs' ! i), sts' ! Suc i)"
      proof (intro allI impI)
        fix i
        assume "i < k"
        then show "f (cs ! i) (sts' ! i) = (Inr (rs' ! i), sts' ! Suc i)"
          using Cons.prems(4) [rule_format, of "Suc i"] Suc by (simp add: rs sts)
      qed
      show "f (cs ! k) (sts' ! k) = (Inl e, st')"
        using Cons.prems(5) Suc by (simp add: sts)
    qed
    with first show ?thesis by (simp add: sts)
  qed
qed

lemma isObject_present: "isObject v \<Longrightarrow> \<not> isUndefined v \<and> \<not> isNull v"
  by (cases v) simp_all

text \<open>
  C7, as the code has it. Take a rule set of type object with no coercer, literal or
  alternative, whose members, none of them named \<^verbatim>\<open>constructor\<close> or \<^verbatim>\<open>__proto__\<close>, come
  with neither a rule for keys nor one for values, and a value that \<^verbatim>\<open>isObject\<close> accepts
  and that passes the size rule, at a node whose path holds property keys only. (Members
  with one named \<^verbatim>\<open>constructor\<close> are skipped as a whole, and what an object has under
  \<^verbatim>\<open>__proto__\<close> is up to the engine.) If the value has an own
  key that is no member, the match is invalid with the one violation that it contains
  unspecified properties, at the path of the node, whatever the members would say. If
  every own key is a member, the members are matched in their order, one level deeper,
  each against what the value has under its key and at the path extended by that key,
  each from the store the one before it left. When they all return, with the results
  \<open>rs\<close>, the match is valid with no violation if all of \<open>rs\<close> are valid, and otherwise
  invalid with the violations of \<open>rs\<close>, in order. When the first \<open>j\<close> of them return and
  the next one raises, the match raises the same.
\<close>

theorem C7_unspecified_properties:
  assumes "rules_type rules = ''object''" and "rules_coerce rules = []"
    and "rules_values rules = []" and "rules_union rules = []"
    and "rules_props rules = Some ps" and "props_isObject ps"
    and "''__proto__'' \<notin> set (map fst (props_entries ps))"
    and "keys_slot ps = None" and "values_slot ps = None"
    and "isObject v"
    and "object_size (rules_size rules) (length (Object_entries v)) = None"
    and "map_replace path = Inr path'"
  shows "(\<not> set (map fst (Object_entries v)) \<subseteq> set (map fst (props_entries ps)) \<longrightarrow>
           validate (Suc depth) h this v (Some rules) path st
             = (Inr (False, [(path', [Lit ''contains unspecified properties.''])]), st))
       \<and> (set (map fst (Object_entries v)) \<subseteq> set (map fst (props_entries ps))
          \<and> length rs = length (props_entries ps)
          \<and> length sts = Suc (length (props_entries ps))
          \<and> (\<forall>i<length (props_entries ps).
                validate depth h this (value_at v (fst (props_entries ps ! i)))
                    (snd (props_entries ps ! i)) (path @ [KStr (fst (props_entries ps ! i))])
                    (sts ! i)
                  = (Inr (rs ! i), sts ! Suc i)) \<longrightarrow>
           validate (Suc depth) h this v (Some rules) path (sts ! 0)
             = (Inr (if list_all fst rs then (True, []) else (False, concat (map snd rs))),
                sts ! length (props_entries ps)))
       \<and> (set (map fst (Object_entries v)) \<subseteq> set (map fst (props_entries ps))
          \<and> j < length (props_entries ps) \<and> length rs' = j \<and> length sts' = Suc j
          \<and> (\<forall>i<j.
                validate depth h this (value_at v (fst (props_entries ps ! i)))
                    (snd (props_entries ps ! i)) (path @ [KStr (fst (props_entries ps ! i))])
                    (sts' ! i)
                  = (Inr (rs' ! i), sts' ! Suc i))
          \<and> validate depth h this (value_at v (fst (props_entries ps ! j)))
                (snd (props_entries ps ! j)) (path @ [KStr (fst (props_entries ps ! j))])
                (sts' ! j)
              = (Inl e, st') \<longrightarrow>
           validate (Suc depth) h this v (Some rules) path (sts' ! 0) = (Inl e, st'))"
proof -
  let ?f = "\<lambda>(v2, rules2, path2). validate depth h this v2 rules2 path2"
  let ?cs = "map (\<lambda>(key, rules1). (value_at v key, rules1, path @ [KStr key])) (props_entries ps)"
  have calls: "object_calls ps v path = ?cs"
    using assms(8,9) by (simp add: object_calls_def)
  have unfold: "validate (Suc depth) h this v (Some rules) path s
      = (if \<not> isSupersetOf (map fst (props_entries ps)) (map fst (Object_entries v))
         then (Inr (False, [(path', [Lit ''contains unspecified properties.''])]), s)
         else (case mapM ?f ?cs s of
                 (Inl e, st1) \<Rightarrow> (Inl e, st1)
               | (Inr results, st1) \<Rightarrow> (Inr (container_result results), st1)))" for s
    using assms isObject_present [OF assms(10)]
    by (simp add: type_rules_def object_rules_def calls error_def)
  have superset: "isSupersetOf (map fst (props_entries ps)) (map fst (Object_entries v))
      = (set (map fst (Object_entries v)) \<subseteq> set (map fst (props_entries ps)))"
    by (auto simp: isSupersetOf_def list_all_iff)
  have one: "validate (Suc depth) h this v (Some rules) path st
      = (Inr (False, [(path', [Lit ''contains unspecified properties.''])]), st)"
    if "\<not> set (map fst (Object_entries v)) \<subseteq> set (map fst (props_entries ps))"
    using that by (simp only: unfold superset if_True not_not simp_thms)
  have two: "validate (Suc depth) h this v (Some rules) path (sts ! 0)
      = (Inr (if list_all fst rs then (True, []) else (False, concat (map snd rs))),
         sts ! length (props_entries ps))"
    if "set (map fst (Object_entries v)) \<subseteq> set (map fst (props_entries ps))"
      and "length rs = length (props_entries ps)"
      and "length sts = Suc (length (props_entries ps))"
      and "\<forall>i<length (props_entries ps).
             validate depth h this (value_at v (fst (props_entries ps ! i)))
                 (snd (props_entries ps ! i)) (path @ [KStr (fst (props_entries ps ! i))])
                 (sts ! i)
               = (Inr (rs ! i), sts ! Suc i)"
  proof -
    have "mapM ?f ?cs (sts ! 0) = (Inr rs, sts ! length ?cs)"
      using that(2-4) by (intro mapM_chain) (simp_all add: case_prod_beta del: validate.simps)
    then show ?thesis
      using that(1) by (simp add: unfold superset container_result_eq del: validate.simps)
  qed
  have three: "validate (Suc depth) h this v (Some rules) path (sts' ! 0) = (Inl e, st')"
    if "set (map fst (Object_entries v)) \<subseteq> set (map fst (props_entries ps))"
      and "j < length (props_entries ps)" and "length rs' = j" and "length sts' = Suc j"
      and "\<forall>i<j.
             validate depth h this (value_at v (fst (props_entries ps ! i)))
                 (snd (props_entries ps ! i)) (path @ [KStr (fst (props_entries ps ! i))])
                 (sts' ! i)
               = (Inr (rs' ! i), sts' ! Suc i)"
      and "validate depth h this (value_at v (fst (props_entries ps ! j)))
               (snd (props_entries ps ! j)) (path @ [KStr (fst (props_entries ps ! j))])
               (sts' ! j)
             = (Inl e, st')"
  proof -
    have "mapM ?f ?cs (sts' ! 0) = (Inl e, st')"
      using that(2-6)
      by (intro mapM_chain_raises [of j _ rs']) (simp_all add: case_prod_beta del: validate.simps)
    then show ?thesis
      using that(1) by (simp add: unfold superset del: validate.simps)
  qed
  from one two three show ?thesis by blast
qed

text \<open>
  \<^verbatim>\<open>{a: "x", b: 1}\<close> and \<^verbatim>\<open>{a: "x"}\<close> against the members \<^verbatim>\<open>{a: Schema.isString}\<close>, and
  \<^verbatim>\<open>{tags: [1]}\<close> against the members \<^verbatim>\<open>{tags: Schema.isArray(Schema.isString)}\<close>, whose
  one member raises.
\<close>

theorem C7_unspecified_properties_witness:
  "validate (Suc (Suc 0)) [] 0 (VObj [(''a'', VStr ''x''), (''b'', VNum (Finite 1))])
       (Some members_a) [] (\<lambda>i. 0)
     = (Inr (False, [([], [Lit ''contains unspecified properties.''])]), \<lambda>i. 0)
   \<and> validate (Suc (Suc 0)) [] 0 (VObj [(''a'', VStr ''x'')]) (Some members_a) [] (\<lambda>i. 0)
     = (Inr (True, []), \<lambda>i. 0)
   \<and> validate (Suc (Suc (Suc 0))) [] 0 (VObj [(''tags'', VArr [VNum (Finite 1)])])
       (Some members_tags) [] (\<lambda>i. 0)
     = (Inl TypeError, \<lambda>i. 0)"
  using
    C7_unspecified_properties [where rules = members_a
      and ps = "Props [(''a'', Some (spread defaults [Type ''string'']))] None None"
      and v = "VObj [(''a'', VStr ''x''), (''b'', VNum (Finite 1))]"
      and path = "[]" and path' = "[]" and depth = "Suc 0" and h = "[]" and this = 0
      and st = "\<lambda>i. 0" and rs = "[]" and sts = "[]" and j = 0 and rs' = "[]" and sts' = "[]"
      and e = TypeError and st' = "\<lambda>i. 0"]
    C7_unspecified_properties [where rules = members_a
      and ps = "Props [(''a'', Some (spread defaults [Type ''string'']))] None None"
      and v = "VObj [(''a'', VStr ''x'')]"
      and path = "[]" and path' = "[]" and depth = "Suc 0" and h = "[]" and this = 0
      and st = "\<lambda>i. 0" and rs = "[(True, [])]" and sts = "[\<lambda>i. 0, \<lambda>i. 0]"
      and j = 0 and rs' = "[]" and sts' = "[]" and e = TypeError and st' = "\<lambda>i. 0"]
    C7_unspecified_properties [where rules = members_tags
      and ps = "Props [(''tags'', Some (spread defaults [Type ''array'',
                  PropsField (Props [] None (Some (spread defaults [Type ''string''])))]))]
                None None"
      and v = "VObj [(''tags'', VArr [VNum (Finite 1)])]"
      and path = "[]" and path' = "[]" and depth = "Suc (Suc 0)" and h = "[]" and this = 0
      and st = "\<lambda>i. 0" and rs = "[]" and sts = "[]" and j = 0 and rs' = "[]"
      and sts' = "[\<lambda>i. 0]" and e = TypeError and st' = "\<lambda>i. 0"]
  by (simp add: members_a_def members_tags_def spread_def defaults_def matcher_defs
      show_nat_digit digits_def)

text \<open>
  The claim as it is stated, for every rule set of type object with members and neither
  rule, fails where the size rule fails, which is checked first:
  \<^verbatim>\<open>Schema.isObject({a: Schema.isString}).hasExactly(1)\<close> on \<^verbatim>\<open>{a: "x", b: 1}\<close> is invalid
  with the violation of the size.
\<close>

theorem C7_size_rule_comes_first:
  "(case static Schema_isString [] of (a, h1) \<Rightarrow>
    case static (Schema_isObject (OneMapping [(''a'', MSchema a)])) h1 of (s, h2) \<Rightarrow>
    case Schema_hasExactly (Finite 1) s h2 of (s, h3) \<Rightarrow>
      rules_type (h3 ! s) = ''object''
      \<and> map_option props_entries (rules_props (h3 ! s)) = Some [(''a'', Some (h3 ! a))]
      \<and> map_option props_keys (rules_props (h3 ! s)) = Some None
      \<and> map_option props_values (rules_props (h3 ! s)) = Some None
      \<and> validate (Suc (Suc 0)) h3 s (VObj [(''a'', VStr ''x''), (''b'', VNum (Finite 1))])
            None [] (\<lambda>i. 0)
          = (Inr (False, [([], [Lit ''does not have exactly '', Val (VNum (Finite 1)),
                                Lit '' property.''])]), \<lambda>i. 0))"
  by (simp add: builder_defs Schema_isString_def Schema_hasExactly_def matcher_defs)

text \<open>
  The literals come first as well: with \<^verbatim>\<open>.is("q")\<close> the same object gets the violation of
  the literals.
\<close>

lemma unspecified_properties_after_literals:
  "(case static Schema_isString [] of (a, h1) \<Rightarrow>
    case static (Schema_isObject (OneMapping [(''a'', MSchema a)])) h1 of (s, h2) \<Rightarrow>
    case Schema_is (LStr ''q'') s h2 of (s, h3) \<Rightarrow>
      validate (Suc (Suc 0)) h3 s (VObj [(''a'', VStr ''x''), (''b'', VNum (Finite 1))])
          None [] (\<lambda>i. 0)
        = (Inr (False, [([], [Lit ''does not equal any required value.''])]), \<lambda>i. 0))"
  by (simp add: builder_defs Schema_isString_def Schema_is_def nth_append matcher_defs)

text \<open>
  An object with an own property \<^verbatim>\<open>constructor\<close> is no object to \<^verbatim>\<open>isObject\<close>:
  \<^verbatim>\<open>{a: "x", constructor: 1}\<close> is refused as such, before its keys are looked at.
\<close>

lemma own_constructor_is_not_an_object:
  "validate (Suc (Suc 0)) [] 0
       (VObj [(''a'', VStr ''x''), (''constructor'', VNum (Finite 1))]) (Some members_a) []
       (\<lambda>i. 0)
     = (Inr (False, [([], [Lit ''is not an object.''])]), \<lambda>i. 0)"
  by (simp add: members_a_def spread_def defaults_def matcher_defs)

text \<open>
  Members with one named \<^verbatim>\<open>constructor\<close> are no object to \<^verbatim>\<open>isObject\<close> either, and
  the match skips them: \<^verbatim>\<open>Schema.isObject(undefined, undefined, {constructor:
  Schema.isString})\<close> accepts \<^verbatim>\<open>{b: 1}\<close>.
\<close>

lemma members_named_constructor_are_skipped:
  "(case static Schema_isString [] of (a, h1) \<Rightarrow>
    case static (Schema_isObject
           (KeysValues None None (Some [(''constructor'', MSchema a)]))) h1 of (s, h2) \<Rightarrow>
      validate (Suc (Suc 0)) h2 s (VObj [(''b'', VNum (Finite 1))]) None [] (\<lambda>i. 0))
   = (Inr (True, []), \<lambda>i. 0)"
  by (simp add: builder_defs Schema_isString_def nth_append matcher_defs)

text \<open>
  A member is matched against what the object has under its key, own or inherited: the
  member \<^verbatim>\<open>toString\<close> of \<^verbatim>\<open>{}\<close> is the method every object inherits, which is no string.
\<close>

lemma inherited_member_is_matched:
  "(case static Schema_isString [] of (a, h1) \<Rightarrow>
    case static (Schema_isObject (OneMapping [(''toString'', MSchema a)])) h1 of (s, h2) \<Rightarrow>
      validate (Suc (Suc 0)) h2 s (VObj []) None [] (\<lambda>i. 0))
   = (Inr (False, [([KStr ''toString''], [Lit ''is not a string.''])]), \<lambda>i. 0)"
  by (simp add: builder_defs Schema_isString_def nth_append matcher_defs)

section \<open>The integrity check on every rule set\<close>

lemmas meta_defs =
  meta_boolean_def meta_array_at_least_def meta_type_def meta_integer_def meta_pair_def
  meta_integer_or_pair_def meta_optional_regexp_def meta_optional_boolean_def meta_number_def
  meta_date_def meta_number_or_date_def meta_range_def meta_any_object_def meta_props_def
  meta_entries_def meta_rules_def

lemmas heap_simps = builder_defs Schema_defs nth_append list_update_append

lemma check_array_at_least_eq:
  "check_array_at_least n H = (length H, H @ [meta_array_at_least n])"
  unfolding check_array_at_least_def Let_def
  by (simp cong: prod.case_cong_weak add: heap_simps meta_defs)

lemma check_integer_or_pair_eq:
  "check_integer_or_pair H =
     (length H, H @ [meta_integer_or_pair, meta_integer, meta_integer, meta_integer, meta_pair])"
  unfolding check_integer_or_pair_def Let_def
  by (simp cong: prod.case_cong_weak add: heap_simps meta_defs)

lemma check_number_or_date_eq:
  "check_number_or_date H = (length H + 2, H @ [meta_number, meta_date, meta_number_or_date])"
  unfolding check_number_or_date_def Let_def
  by (simp cong: prod.case_cong_weak add: heap_simps meta_defs)

lemma check_range_eq:
  "check_range H =
     (length H, H @ [meta_range, meta_number, meta_date, meta_number_or_date,
                     meta_number, meta_date, meta_number_or_date])"
  unfolding check_range_def Let_def
  by (simp cong: prod.case_cong_weak add: check_number_or_date_eq heap_simps meta_defs)

lemma check_props_eq:
  "check_props H = (length H, H @ [meta_props, meta_any_object])"
  unfolding check_props_def Let_def
  by (simp cong: prod.case_cong_weak add: heap_simps meta_defs)

lemma check_schema_eq:
  "check_schema h =
     (length h + 26,
      h @ [meta_boolean, meta_boolean, meta_array_at_least (Finite 1),
           meta_array_at_least (Finite 2), meta_type,
           meta_integer_or_pair, meta_integer, meta_integer, meta_integer, meta_pair,
           meta_optional_regexp, meta_optional_boolean,
           meta_range, meta_number, meta_date, meta_number_or_date,
           meta_number, meta_date, meta_number_or_date,
           meta_integer_or_pair, meta_integer, meta_integer, meta_integer, meta_pair,
           meta_props, meta_any_object, meta_rules])"
  unfolding check_schema_def Let_def
  apply (simp cong: prod.case_cong_weak add: check_array_at_least_eq check_integer_or_pair_eq
      check_range_eq check_props_eq heap_simps)
  apply (simp add: meta_defs)
  done


lemma mapM_returns:
  assumes "\<And>c. c \<in> set cs \<Longrightarrow> \<exists>r. f c st = (Inr r, st)"
  shows "\<exists>rs. mapM f cs st = (Inr rs, st) \<and> length rs = length cs
           \<and> (\<forall>i<length cs. f (cs ! i) st = (Inr (rs ! i), st))"
  using assms
proof (induction cs)
  case Nil
  then show ?case by simp
next
  case (Cons c cs)
  from Cons.prems obtain r where r: "f c st = (Inr r, st)" by auto
  from Cons obtain rs where rs: "mapM f cs st = (Inr rs, st)" "length rs = length cs"
    "\<forall>i<length cs. f (cs ! i) st = (Inr (rs ! i), st)" by auto
  show ?case
    apply (rule exI[where x = "r # rs"])
    using r rs by (auto simp: nth_Cons split: nat.splits)
qed

lemma m_boolean:
  "validate (Suc n) H T (VBool b) (Some meta_boolean) [KStr key] st = (Inr (True, []), st)"
  by (simp add: meta_defs matcher_defs)

lemma m_coerce:
  "H ! T = meta_rules \<Longrightarrow>
   validate (Suc n) H T (VArr xs) None [KStr ''coerce''] st
     = (Inr (False, [([KStr ''coerce''], [Lit ''is not an object.''])]), st)"
  by (simp add: meta_rules_def matcher_defs)

lemma m_values:
  "validate (Suc n) H T (VArr xs) (Some (meta_array_at_least (Finite 1))) [KStr ''values''] st
     = (Inr (False, [([KStr ''values''],
          if xs = [] then [Lit ''has fewer than '', Val (VNum (Finite 1)), Lit '' items.'']
          else [Lit ''contains unspecified items.''])]), st)"
  by (cases xs) (simp_all add: meta_defs matcher_defs)

lemma m_union:
  "validate (Suc n) H T (VArr xs) (Some (meta_array_at_least (Finite 2))) [KStr ''union''] st
     = (Inr (False, [([KStr ''union''],
          if length xs < 2 then [Lit ''has fewer than '', Val (VNum (Finite 2)), Lit '' items.'']
          else [Lit ''contains unspecified items.''])]), st)"
  by (cases xs) (auto simp add: meta_defs matcher_defs)

lemma m_type:
  "validate (Suc n) H T (VStr f) (Some meta_type) [KStr ''type''] st
     = (Inr (if f \<in> {''string'', ''number'', ''date'', ''boolean'', ''regexp'', ''object'', ''array''}
             then (True, [])
             else (False, [([KStr ''type''], [Lit ''does not equal any required value.''])])), st)"
  by (simp add: meta_defs matcher_defs)


lemma m_integer_or_pair:
  "\<exists>r. validate (Suc (Suc (Suc n))) H T (or_undefined (map_option bound_value g))
         (Some meta_integer_or_pair) [KStr key] st = (Inr r, st)"
proof (cases g)
  case None
  then show ?thesis by (auto simp add: or_undefined_def meta_defs matcher_defs)
next
  case (Some b)
  then show ?thesis
    by (cases b)
      (auto simp add: or_undefined_def meta_defs matcher_defs spread_def show_nat_digit digits_def)
qed

lemma m_regexp:
  "validate (Suc n) H T (or_undefined (map_option VRegExp g)) (Some meta_optional_regexp)
      [KStr key] st = (Inr (True, []), st)"
  by (cases g) (simp_all add: or_undefined_def meta_defs matcher_defs)

lemma m_integer:
  "validate (Suc n) H T (or_undefined (map_option VBool g)) (Some meta_optional_boolean)
      [KStr key] st = (Inr (True, []), st)"
  by (cases g) (simp_all add: or_undefined_def meta_defs matcher_defs)

lemma number_or_date_returns:
  "\<exists>r. validate (Suc (Suc n)) H T v (Some meta_number_or_date) [KStr a, KStr b] st = (Inr r, st)"
  by (cases v) (auto simp add: meta_defs matcher_defs spread_def)

lemma m_range:
  "\<exists>r. validate (Suc (Suc (Suc n))) H T (or_undefined (map_option (\<lambda>(lo, hi). VArr [lo, hi]) g))
         (Some meta_range) [KStr key] st = (Inr r, st)"
proof (cases g)
  case None
  then show ?thesis by (auto simp add: or_undefined_def meta_defs matcher_defs)
next
  case (Some b)
  obtain lo hi where b: "b = (lo, hi)" by (cases b)
  obtain r0 where r0: "validate (Suc (Suc n)) H T lo (Some meta_number_or_date)
      [KStr key, KStr ''0''] st = (Inr r0, st)"
    using number_or_date_returns by blast
  obtain r1 where r1: "validate (Suc (Suc n)) H T hi (Some meta_number_or_date)
      [KStr key, KStr ''1''] st = (Inr r1, st)"
    using number_or_date_returns by blast
  show ?thesis
    using Some b r0 r1
    by (simp add: or_undefined_def meta_range_def matcher_defs show_nat_digit digits_def)
qed

lemma any_object_returns:
  "\<exists>r. validate (Suc n) H T v (Some meta_any_object) [KStr a, KStr b] st = (Inr r, st)"
proof (cases v)
  case (VObj fs)
  then show ?thesis by (cases fs) (auto simp add: meta_defs matcher_defs)
qed (auto simp add: meta_defs matcher_defs)


lemma m_props:
  "\<exists>r. validate (Suc (Suc n)) H T (or_undefined (map_option props_value g))
         (Some meta_props) [KStr key] st = (Inr r, st)"
proof (cases g)
  case None
  then show ?thesis by (auto simp add: or_undefined_def meta_defs matcher_defs)
next
  case (Some ps)
  obtain fs where fs: "props_value ps = VObj fs" by (cases ps) simp
  have "\<exists>r. (\<lambda>(v2, rules2, path2). validate (Suc n) H T v2 rules2 path2) c st = (Inr r, st)"
    if "c \<in> set (object_calls (Props [] None (Some meta_any_object)) (VObj fs) [KStr key])" for c
  proof -
    from that obtain k v where "c = (v, Some meta_any_object, [KStr key, KStr k])"
      by (auto simp: object_calls_def keys_slot_def values_slot_def)
    then show ?thesis
      using any_object_returns [of n H T v key k st] by (simp del: validate.simps)
  qed
  then have "\<exists>rs. mapM (\<lambda>(v2, rules2, path2). validate (Suc n) H T v2 rules2 path2)
           (object_calls (Props [] None (Some meta_any_object)) (VObj fs) [KStr key]) st = (Inr rs, st)
         \<and> length rs = length (object_calls (Props [] None (Some meta_any_object)) (VObj fs) [KStr key])
         \<and> (\<forall>i<length (object_calls (Props [] None (Some meta_any_object)) (VObj fs) [KStr key]).
               (\<lambda>(v2, rules2, path2). validate (Suc n) H T v2 rules2 path2)
                 (object_calls (Props [] None (Some meta_any_object)) (VObj fs) [KStr key] ! i) st
               = (Inr (rs ! i), st))"
    by (rule mapM_returns)
  then obtain rs where
    "mapM (\<lambda>(v2, rules2, path2). validate (Suc n) H T v2 rules2 path2)
       (object_calls (Props [] None (Some meta_any_object)) (VObj fs) [KStr key]) st = (Inr rs, st)"
    by blast
  with Some fs show ?thesis
    by (auto simp add: or_undefined_def meta_props_def type_rules_def object_rules_def
        object_size_def props_isObject_def error_def keys_slot_def values_slot_def Let_def)
qed

lemma rules_value_fields:
  "\<exists>fs. rules_value R = VObj fs
     \<and> get_prop fs ''required'' = VBool (rules_required R)
     \<and> get_prop fs ''null'' = VBool (rules_null R)
     \<and> get_prop fs ''coerce'' = VArr (map (\<lambda>x. VOther) (rules_coerce R))
     \<and> get_prop fs ''values'' = VArr (map literal_value (rules_values R))
     \<and> get_prop fs ''union'' = VArr (map rules_value (rules_union R))
     \<and> get_prop fs ''type'' = VStr (rules_type R)
     \<and> get_prop fs ''length'' = or_undefined (map_option bound_value (rules_length R))
     \<and> get_prop fs ''pattern'' = or_undefined (map_option VRegExp (rules_pattern R))
     \<and> get_prop fs ''integer'' = or_undefined (map_option VBool (rules_integer R))
     \<and> get_prop fs ''range''
         = or_undefined (map_option (\<lambda>(lo, hi). VArr [lo, hi]) (rules_range R))
     \<and> get_prop fs ''size'' = or_undefined (map_option bound_value (rules_size R))
     \<and> get_prop fs ''props'' = or_undefined (map_option props_value (rules_props R))
     \<and> set (map fst fs) \<subseteq> set (map fst meta_entries)"
proof (cases R)
  case (Rules a b c d e f g h i j k l)
  show ?thesis
    unfolding Rules rules_value.simps
    by (cases g; cases h; cases i; cases j; cases k; cases l)
      (simp_all add: get_prop_def optional_field_def meta_entries_def or_undefined_def
        from_object_prototype_def object_prototype_names_def)
qed


lemma meta_validate:
  assumes meta: "H ! T = meta_rules"
  shows "\<exists>rs. validate (Suc (Suc (Suc (Suc n)))) H T (rules_value R) None [] st
             = (Inr (False, concat (map snd rs)), st)
           \<and> length rs = 12
           \<and> rs ! 3 = (False, [([KStr ''values''],
               if rules_values R = []
               then [Lit ''has fewer than '', Val (VNum (Finite 1)), Lit '' items.'']
               else [Lit ''contains unspecified items.''])])
           \<and> rs ! 4 = (False, [([KStr ''union''],
               if length (rules_union R) < 2
               then [Lit ''has fewer than '', Val (VNum (Finite 2)), Lit '' items.'']
               else [Lit ''contains unspecified items.''])])
           \<and> rs ! 5 =
               (if rules_type R \<in> {''string'', ''number'', ''date'', ''boolean'', ''regexp'',
                                   ''object'', ''array''}
                then (True, [])
                else (False, [([KStr ''type''], [Lit ''does not equal any required value.''])]))"
proof -
  let ?f = "\<lambda>(v2, rules2, path2). validate (Suc (Suc (Suc n))) H T v2 rules2 path2"
  from rules_value_fields [of R] obtain fs where fs: "rules_value R = VObj fs"
    and fields:
      "get_prop fs ''required'' = VBool (rules_required R)"
      "get_prop fs ''null'' = VBool (rules_null R)"
      "get_prop fs ''coerce'' = VArr (map (\<lambda>x. VOther) (rules_coerce R))"
      "get_prop fs ''values'' = VArr (map literal_value (rules_values R))"
      "get_prop fs ''union'' = VArr (map rules_value (rules_union R))"
      "get_prop fs ''type'' = VStr (rules_type R)"
      "get_prop fs ''length'' = or_undefined (map_option bound_value (rules_length R))"
      "get_prop fs ''pattern'' = or_undefined (map_option VRegExp (rules_pattern R))"
      "get_prop fs ''integer'' = or_undefined (map_option VBool (rules_integer R))"
      "get_prop fs ''range''
         = or_undefined (map_option (\<lambda>(lo, hi). VArr [lo, hi]) (rules_range R))"
      "get_prop fs ''size'' = or_undefined (map_option bound_value (rules_size R))"
      "get_prop fs ''props'' = or_undefined (map_option props_value (rules_props R))"
    and keys: "set (map fst fs) \<subseteq> set (map fst meta_entries)"
    by blast
  let ?calls = "object_calls (Props meta_entries None None) (VObj fs) []"
  have calls: "?calls =
    [(VBool (rules_required R), Some meta_boolean, [KStr ''required'']),
     (VBool (rules_null R), Some meta_boolean, [KStr ''null'']),
     (VArr (map (\<lambda>x. VOther) (rules_coerce R)), None, [KStr ''coerce'']),
     (VArr (map literal_value (rules_values R)), Some (meta_array_at_least (Finite 1)),
        [KStr ''values'']),
     (VArr (map rules_value (rules_union R)), Some (meta_array_at_least (Finite 2)),
        [KStr ''union'']),
     (VStr (rules_type R), Some meta_type, [KStr ''type'']),
     (or_undefined (map_option bound_value (rules_length R)), Some meta_integer_or_pair,
        [KStr ''length'']),
     (or_undefined (map_option VRegExp (rules_pattern R)), Some meta_optional_regexp,
        [KStr ''pattern'']),
     (or_undefined (map_option VBool (rules_integer R)), Some meta_optional_boolean,
        [KStr ''integer'']),
     (or_undefined (map_option (\<lambda>(lo, hi). VArr [lo, hi]) (rules_range R)), Some meta_range,
        [KStr ''range'']),
     (or_undefined (map_option bound_value (rules_size R)), Some meta_integer_or_pair,
        [KStr ''size'']),
     (or_undefined (map_option props_value (rules_props R)), Some meta_props,
        [KStr ''props''])]"
    by (simp add: object_calls_def meta_entries_def fields keys_slot_def values_slot_def)
  have "\<exists>r. ?f c st = (Inr r, st)" if "c \<in> set ?calls" for c
    using that unfolding calls
    using m_coerce [OF meta, of "Suc (Suc n)" "map (\<lambda>x. VOther) (rules_coerce R)" st]
      m_integer_or_pair [of n H T "rules_length R" "''length''" st]
      m_integer_or_pair [of n H T "rules_size R" "''size''" st]
      m_range [of n H T "rules_range R" "''range''" st]
      m_props [of "Suc n" H T "rules_props R" "''props''" st]
    by (auto simp del: validate.simps simp add: m_boolean m_values m_union m_type m_regexp m_integer)
  then have "\<exists>rs. mapM ?f ?calls st = (Inr rs, st) \<and> length rs = length ?calls
      \<and> (\<forall>i<length ?calls. ?f (?calls ! i) st = (Inr (rs ! i), st))"
    by (rule mapM_returns)
  then obtain rs where rs: "mapM ?f ?calls st = (Inr rs, st)" "length rs = length ?calls"
    and nth: "\<And>i. i < length ?calls \<Longrightarrow> ?f (?calls ! i) st = (Inr (rs ! i), st)"
    by blast
  have len: "length rs = 12"
    using rs(2) by (simp add: calls)
  have r2: "rs ! 2 = (False, [([KStr ''coerce''], [Lit ''is not an object.''])])"
    using nth [of 2] m_coerce [OF meta, of "Suc (Suc n)" "map (\<lambda>x. VOther) (rules_coerce R)" st]
    by (simp add: calls del: validate.simps)
  have r3: "rs ! 3 = (False, [([KStr ''values''],
               if rules_values R = []
               then [Lit ''has fewer than '', Val (VNum (Finite 1)), Lit '' items.'']
               else [Lit ''contains unspecified items.''])])"
    using nth [of 3] by (simp add: calls m_values del: validate.simps)
  have r4: "rs ! 4 = (False, [([KStr ''union''],
               if length (rules_union R) < 2
               then [Lit ''has fewer than '', Val (VNum (Finite 2)), Lit '' items.'']
               else [Lit ''contains unspecified items.''])])"
    using nth [of 4] by (simp add: calls m_union del: validate.simps)
  have r5: "rs ! 5 =
               (if rules_type R \<in> {''string'', ''number'', ''date'', ''boolean'', ''regexp'',
                                   ''object'', ''array''}
                then (True, [])
                else (False, [([KStr ''type''], [Lit ''does not equal any required value.''])]))"
    using nth [of 5] by (simp add: calls m_type del: validate.simps)
  have invalid: "\<not> list_all fst rs"
    using r2 len by (auto simp: list_all_length intro!: exI [of _ 2])
  have plain: "map_of fs ''constructor'' = None"
    using keys by (auto simp: map_of_eq_None_iff meta_entries_def)
  have "validate (Suc (Suc (Suc (Suc n)))) H T (rules_value R) None [] st
      = (Inr (False, concat (map snd rs)), st)"
    using keys rs(1) invalid plain
    by (simp add: fs meta meta_rules_def type_rules_def object_rules_def object_size_def
        isSupersetOf_def list_all_iff container_result_eq subset_iff props_isObject_def
        meta_entries_def keys_slot_def values_slot_def)
  with len r3 r4 r5 show ?thesis by blast
qed


lemma check_eq:
  assumes "this < length h"
  shows "\<exists>H. check depth this h st
             = (validate depth H (length h + 26) (rules_value (h ! this)) None [] st, H)
           \<and> H ! (length h + 26) = meta_rules"
  using assms by (simp add: check_def check_schema_eq nth_append del: validate.simps)

lemma check_result:
  assumes "this < length h"
  shows "\<exists>rs. fst (check (Suc (Suc (Suc (Suc n)))) this h st)
             = (Inr (False, concat (map snd rs)), st)
           \<and> length rs = 12
           \<and> rs ! 3 = (False, [([KStr ''values''],
               if rules_values (h ! this) = []
               then [Lit ''has fewer than '', Val (VNum (Finite 1)), Lit '' items.'']
               else [Lit ''contains unspecified items.''])])
           \<and> rs ! 4 = (False, [([KStr ''union''],
               if length (rules_union (h ! this)) < 2
               then [Lit ''has fewer than '', Val (VNum (Finite 2)), Lit '' items.'']
               else [Lit ''contains unspecified items.''])])
           \<and> rs ! 5 =
               (if rules_type (h ! this) \<in> {''string'', ''number'', ''date'', ''boolean'',
                                            ''regexp'', ''object'', ''array''}
                then (True, [])
                else (False, [([KStr ''type''], [Lit ''does not equal any required value.''])]))"
proof -
  from check_eq [OF assms] obtain H where
    "check (Suc (Suc (Suc (Suc n)))) this h st
       = (validate (Suc (Suc (Suc (Suc n)))) H (length h + 26) (rules_value (h ! this)) None [] st,
          H)"
    and "H ! (length h + 26) = meta_rules" by blast
  then show ?thesis
    using meta_validate [of H "length h + 26" n "h ! this" st] by (simp del: validate.simps)
qed

lemma nth_violation:
  assumes "i < length rs" and "v \<in> set (snd (rs ! i))"
  shows "v \<in> set (concat (map snd rs))"
  using assms by (auto intro!: bexI [of _ "rs ! i"])

text \<open>
  C9. The schema that \<^verbatim>\<open>check\<close> builds asks of \<^verbatim>\<open>values\<close> an array of at least one item
  and of \<^verbatim>\<open>union\<close> an array of at least two. A schema that leaves both at their default,
  the empty array, is therefore rejected: whatever its other fields, and whatever the
  heap it lives in, \<^verbatim>\<open>check\<close> returns invalid, and the violations of \<^verbatim>\<open>values\<close> and of
  \<^verbatim>\<open>union\<close> are in the list. Four levels of recursion are enough for any rule set.
\<close>

theorem C9_check_rejects_default_lists:
  assumes "this < length h" and "rules_values (h ! this) = []" and "rules_union (h ! this) = []"
  shows "\<exists>vs. fst (check (Suc (Suc (Suc (Suc n)))) this h st) = (Inr (False, vs), st)
           \<and> ([KStr ''values''],
               [Lit ''has fewer than '', Val (VNum (Finite 1)), Lit '' items.'']) \<in> set vs
           \<and> ([KStr ''union''],
               [Lit ''has fewer than '', Val (VNum (Finite 2)), Lit '' items.'']) \<in> set vs"
proof -
  from check_result [OF assms(1), of n st] obtain rs where
    rs: "fst (check (Suc (Suc (Suc (Suc n)))) this h st) = (Inr (False, concat (map snd rs)), st)"
    and len: "length rs = 12"
    and r3: "rs ! 3 = (False, [([KStr ''values''],
               [Lit ''has fewer than '', Val (VNum (Finite 1)), Lit '' items.''])])"
    and r4: "rs ! 4 = (False, [([KStr ''union''],
               [Lit ''has fewer than '', Val (VNum (Finite 2)), Lit '' items.''])])"
    using assms(2,3) by auto
  have "([KStr ''values''],
         [Lit ''has fewer than '', Val (VNum (Finite 1)), Lit '' items.''])
          \<in> set (concat (map snd rs))"
    by (rule nth_violation [of 3]) (simp_all add: len r3)
  moreover have "([KStr ''union''],
         [Lit ''has fewer than '', Val (VNum (Finite 2)), Lit '' items.''])
          \<in> set (concat (map snd rs))"
    by (rule nth_violation [of 4]) (simp_all add: len r4)
  ultimately show ?thesis using rs by blast
qed

text \<open>
  C8. On a rule set whose type is none of the seven, as \<^verbatim>\<open>"unknown"\<close> is, \<^verbatim>\<open>check\<close> returns
  invalid, and the list has the violation at \<^verbatim>\<open>type\<close> that it does not equal any required
  value.
\<close>

theorem C8_check_rejects_unknown_type:
  assumes "this < length h"
    and "rules_type (h ! this) \<notin> {''string'', ''number'', ''date'', ''boolean'', ''regexp'',
                                     ''object'', ''array''}"
  shows "\<exists>vs. fst (check (Suc (Suc (Suc (Suc n)))) this h st) = (Inr (False, vs), st)
           \<and> ([KStr ''type''], [Lit ''does not equal any required value.'']) \<in> set vs"
proof -
  from check_result [OF assms(1), of n st] obtain rs where
    rs: "fst (check (Suc (Suc (Suc (Suc n)))) this h st) = (Inr (False, concat (map snd rs)), st)"
    and len: "length rs = 12"
    and r5: "rs ! 5 = (False, [([KStr ''type''], [Lit ''does not equal any required value.''])])"
    using assms(2) by auto
  have "([KStr ''type''], [Lit ''does not equal any required value.''])
          \<in> set (concat (map snd rs))"
    by (rule nth_violation [of 5]) (simp_all add: len r5)
  then show ?thesis using rs by blast
qed

text \<open>The check of a new schema, whose rule set is the defaults.\<close>

theorem C9_check_rejects_default_lists_witness:
  "fst (check (Suc (Suc (Suc (Suc 0)))) 0 [defaults] (\<lambda>i. 0))
     = (Inr (False,
         [([KStr ''coerce''], [Lit ''is not an object.'']),
          ([KStr ''values''], [Lit ''has fewer than '', Val (VNum (Finite 1)), Lit '' items.'']),
          ([KStr ''union''], [Lit ''has fewer than '', Val (VNum (Finite 2)), Lit '' items.''])]),
        \<lambda>i. 0)"
  using C9_check_rejects_default_lists [where this = 0 and h = "[defaults]" and n = 0
      and st = "\<lambda>i. 0"]
  by (simp add: check_def check_schema_eq defaults_def optional_field_def meta_defs matcher_defs)

text \<open>The check of the defaults with the type \<^verbatim>\<open>"unknown"\<close>.\<close>

theorem C8_check_rejects_unknown_type_witness:
  "fst (check (Suc (Suc (Suc (Suc 0)))) 0 [spread defaults [Type ''unknown'']] (\<lambda>i. 0))
     = (Inr (False,
         [([KStr ''coerce''], [Lit ''is not an object.'']),
          ([KStr ''values''], [Lit ''has fewer than '', Val (VNum (Finite 1)), Lit '' items.'']),
          ([KStr ''union''], [Lit ''has fewer than '', Val (VNum (Finite 2)), Lit '' items.'']),
          ([KStr ''type''], [Lit ''does not equal any required value.''])]),
        \<lambda>i. 0)"
  using C8_check_rejects_unknown_type [where this = 0
      and h = "[spread defaults [Type ''unknown'']]" and n = 0 and st = "\<lambda>i. 0"]
  by (simp add: check_def check_schema_eq defaults_def spread_def optional_field_def meta_defs
      matcher_defs)

section \<open>Purity\<close>

lemma merged_sel:
  "rules_union (spread (spread r (own_fields u)) [Union []]) = []"
  "rules_pattern (spread (spread r (own_fields u)) [Union []])
     = (case rules_pattern u of None \<Rightarrow> rules_pattern r | Some p \<Rightarrow> Some p)"
  "rules_props (spread (spread r (own_fields u)) [Union []])
     = (case rules_props u of None \<Rightarrow> rules_props r | Some p \<Rightarrow> Some p)"
  by (cases r; cases u; simp add: spread_def split: option.splits prod.splits)+

lemma leaves_store_mapM:
  assumes "\<And>c. c \<in> set cs \<Longrightarrow> leaves_store (f c)"
  shows "leaves_store (mapM f cs)"
  using assms
proof (induction cs)
  case Nil
  show ?case by (simp add: leaves_store_def)
next
  case (Cons c cs)
  from Cons.prems obtain r where r: "\<And>st. f c st = (r, st)"
    by (auto simp: leaves_store_def)
  from Cons obtain rs where rs: "\<And>st. mapM f cs st = (rs, st)"
    by (auto simp: leaves_store_def)
  show ?case
    unfolding leaves_store_def
    by (cases r; cases rs) (simp_all add: r rs)
qed

lemma test_stateless:
  "\<not> re_global p \<Longrightarrow> \<not> re_sticky p \<Longrightarrow> test p s st = (re_exec p 0 s \<noteq> None, st)"
  by (simp add: test_def)

lemma leaves_storeI:
  assumes "\<And>st. snd (m st) = st" and "\<And>st st'. fst (m st) = fst (m st')"
  shows "leaves_store m"
  unfolding leaves_store_def
proof (intro exI allI)
  fix st
  show "m st = (fst (m (\<lambda>i. 0)), st)"
    using assms(1) [of st] assms(2) [of st "\<lambda>i. 0"] by (cases "m st") simp
qed

lemma leaves_store_string_rules:
  assumes "stateless_pattern (rules_pattern rules)"
  shows "leaves_store (string_rules rules v path)"
proof -
  have "test p s st = (re_exec p 0 s \<noteq> None, st)" if "rules_pattern rules = Some p" for p s st
    using assms that by (simp add: stateless_pattern_def test_stateless)
  then show ?thesis
    by (intro leaves_storeI)
      (auto simp: string_rules_def string_pattern_def split: jsval.splits option.splits bool.splits)
qed

lemma leaves_store_return: "leaves_store (\<lambda>st. (r, st))"
  by (simp add: leaves_store_def)

lemma leaves_store_reduce:
  assumes "leaves_store m"
  shows "leaves_store (\<lambda>st. case m st of (Inl e, st1) \<Rightarrow> (Inl e, st1)
                                | (Inr rs, st1) \<Rightarrow> (Inr (g rs), st1))"
proof -
  from assms obtain r where r: "\<And>st. m st = (r, st)" by (auto simp: leaves_store_def)
  show ?thesis
    unfolding leaves_store_def r by (cases r) auto
qed

lemma stateless_slots:
  assumes "stateless_props ps"
  shows "all_true (map_option stateless (keys_slot ps))"
    and "all_true (map_option stateless (values_slot ps))"
  using assms
  by (cases ps;
      force simp: keys_slot_def values_slot_def all_true_def list_all_iff
        split: option.splits dest!: map_of_SomeD)+

lemma stateless_object_calls:
  assumes "stateless_props ps" and "c \<in> set (object_calls ps v path)"
  shows "stateless_call c"
  using assms stateless_slots [OF assms(1)]
  by (cases ps)
    (auto simp: object_calls_def stateless_call_def all_true_def list_all_iff
      split: option.splits)

lemma stateless_array_calls:
  assumes "stateless_props ps" and "c \<in> set (array_calls ps v path)"
  shows "stateless_call c"
  using assms stateless_slots [OF assms(1)]
  by (cases ps)
    (auto simp: array_calls_def stateless_call_def all_true_def list_all_iff
      split: option.splits)

lemma stateless_union_calls:
  assumes "stateless rules" and "c \<in> set (union_calls rules v path)"
  shows "stateless_call c"
proof -
  from assms(2) obtain u where u: "u \<in> set (rules_union rules)"
    and c: "c = (v, Some (spread (spread rules (own_fields u)) [Union []]), path)"
    by (auto simp: union_calls_def)
  from assms(1) u have su: "stateless u"
    by (cases rules) (auto simp: list_all_iff)
  obtain a1 b1 c1 d1 e1 f1 g1 h1 i1 j1 k1 l1 where
    m: "spread (spread rules (own_fields u)) [Union []] = Rules a1 b1 c1 d1 e1 f1 g1 h1 i1 j1 k1 l1"
    by (cases "spread (spread rules (own_fields u)) [Union []]")
  from merged_sel [of rules u] m have
    "e1 = []"
    "h1 = (case rules_pattern u of None \<Rightarrow> rules_pattern rules | Some p \<Rightarrow> Some p)"
    "l1 = (case rules_props u of None \<Rightarrow> rules_props rules | Some p \<Rightarrow> Some p)"
    by simp_all
  with assms(1) su have "stateless (Rules a1 b1 c1 d1 e1 f1 g1 h1 i1 j1 k1 l1)"
    by (cases rules; cases u) (auto split: option.splits)
  with c m show ?thesis by (simp add: stateless_call_def all_true_def)
qed

lemma leaves_store_object_rules:
  assumes "\<And>c. stateless_call c \<Longrightarrow> leaves_store (f c)"
    and "all_true (map_option stateless_props (rules_props rules))"
  shows "leaves_store (object_rules f rules v path)"
proof (cases "rules_props rules")
  case None
  then show ?thesis
    by (intro leaves_storeI) (auto simp: object_rules_def split: option.splits)
next
  case (Some ps)
  with assms(2) have "stateless_props ps" by (simp add: all_true_def)
  then have "leaves_store (mapM f (object_calls ps v path))"
    by (intro leaves_store_mapM assms(1)) (rule stateless_object_calls)
  then obtain r where r: "\<And>st. mapM f (object_calls ps v path) st = (r, st)"
    by (auto simp: leaves_store_def)
  show ?thesis
    by (intro leaves_storeI) (auto simp: object_rules_def Some r split: option.splits sum.splits)
qed

lemma leaves_store_array_rules:
  assumes "\<And>c. stateless_call c \<Longrightarrow> leaves_store (f c)"
    and "all_true (map_option stateless_props (rules_props rules))"
  shows "leaves_store (array_rules f rules v path)"
proof (cases "rules_props rules")
  case None
  then show ?thesis
    by (intro leaves_storeI) (auto simp: array_rules_def split: option.splits)
next
  case (Some ps)
  with assms(2) have "stateless_props ps" by (simp add: all_true_def)
  then have "leaves_store (mapM f (array_calls ps v path))"
    by (intro leaves_store_mapM assms(1)) (rule stateless_array_calls)
  then obtain r where r: "\<And>st. mapM f (array_calls ps v path) st = (r, st)"
    by (auto simp: leaves_store_def)
  show ?thesis
    by (intro leaves_storeI) (auto simp: array_rules_def Some r split: option.splits sum.splits)
qed

lemma leaves_store_type_rules:
  assumes "\<And>c. stateless_call c \<Longrightarrow> leaves_store (f c)" and "stateless rules"
  shows "leaves_store (type_rules f rules v path)"
proof -
  from assms(2) have p: "stateless_pattern (rules_pattern rules)"
    and q: "all_true (map_option stateless_props (rules_props rules))"
    by (cases rules; simp)+
  have "type_rules f rules v path =
     (if rules_type rules = ''string'' then string_rules rules v path
      else if rules_type rules = ''number'' then (\<lambda>st. (number_rules rules v path, st))
      else if rules_type rules = ''date'' then (\<lambda>st. (date_rules rules v path, st))
      else if rules_type rules = ''boolean'' then (\<lambda>st. (boolean_rules v path, st))
      else if rules_type rules = ''regexp'' then (\<lambda>st. (regexp_rules v path, st))
      else if rules_type rules = ''object'' then object_rules f rules v path
      else if rules_type rules = ''array'' then array_rules f rules v path
      else (\<lambda>st. (Inr (True, []), st)))"
    by (rule ext) (simp add: type_rules_def)
  then show ?thesis
    using leaves_store_string_rules [OF p] leaves_store_object_rules [OF assms(1) q]
      leaves_store_array_rules [OF assms(1) q]
    by (simp add: leaves_store_return)
qed

lemma validate_leaves_store:
  assumes root: "stateless (h ! this)"
  shows "all_true (map_option stateless rules_arg)
         \<Longrightarrow> leaves_store (validate depth h this v rules_arg path)"
proof (induction depth arbitrary: v rules_arg path)
  case 0
  show ?case by (simp add: leaves_store_def)
next
  case (Suc depth)
  let ?f = "\<lambda>(v2, rules2, path2). validate depth h this v2 rules2 path2"
  define rules where "rules = (case rules_arg of None \<Rightarrow> h ! this | Some r \<Rightarrow> r)"
  have rules: "stateless rules"
    using root Suc.prems by (cases rules_arg) (simp_all add: rules_def all_true_def)
  have f: "leaves_store (?f c)" if "stateless_call c" for c
    using that Suc.IH by (cases c) (simp add: stateless_call_def)
  have u: "leaves_store
      (\<lambda>st. case mapM ?f (union_calls rules v1 path) st of
               (Inl e, st1) \<Rightarrow> (Inl e, st1)
             | (Inr results, st1) \<Rightarrow> (Inr (reduce_or results), st1))" for v1
    by (intro leaves_store_reduce leaves_store_mapM f) (rule stateless_union_calls [OF rules])
  have t: "leaves_store (type_rules ?f rules v1 path)" for v1
    by (rule leaves_store_type_rules [OF f rules])
  have "validate (Suc depth) h this v rules_arg path =
     (if isUndefined v then
        (\<lambda>st. ((if rules_required rules then error path [Lit ''is undefined.'']
                else Inr (True, [])), st))
      else if isNull v then
        (\<lambda>st. ((if \<not> rules_null rules then error path [Lit ''is null.'']
                else Inr (True, [])), st))
      else
        (case reduce_coerce (rules_coerce rules) v of
           Inl e \<Rightarrow> (\<lambda>st. (Inl e, st))
         | Inr v1 \<Rightarrow>
             if rules_values rules \<noteq> [] then
               (\<lambda>st. ((if \<not> array_includes (rules_values rules) v1
                 then error path [Lit ''does not equal any required value.'']
                 else Inr (True, [])), st))
             else if rules_union rules \<noteq> [] then
               (\<lambda>st. case mapM ?f (union_calls rules v1 path) st of
                  (Inl e, st1) \<Rightarrow> (Inl e, st1)
                | (Inr results, st1) \<Rightarrow> (Inr (reduce_or results), st1))
             else type_rules ?f rules v1 path))"
    by (rule ext) (simp add: rules_def Let_def split: sum.splits)
  then show ?case
    using u t by (simp add: leaves_store_return split: sum.splits)
qed

text \<open>
  C6, as the code has it. The matcher is a function of its arguments and of the
  \<^verbatim>\<open>lastIndex\<close> of the patterns it tests, which is the one thing of a rule set it can
  write. When the rule set of the receiver and the rule set passed, if any, are
  stateless, a call of \<^verbatim>\<open>validate\<close> has one result from every store and returns the store
  as it was: a second run returns what the first did, and nothing of the rule set has
  changed.
\<close>

theorem C6_stateless_patterns_leave_store:
  assumes "stateless (h ! this)" and "all_true (map_option stateless rules_arg)"
  shows "\<exists>r. \<forall>st. validate depth h this v rules_arg path st = (r, st)"
  using validate_leaves_store [OF assms] by (simp add: leaves_store_def)

theorem C6_stateless_patterns_leave_store_witness:
  "stateless (spread defaults [Type ''string'', Pattern patterns_uuid])
   \<and> (\<forall>st. validate (Suc 0) [spread defaults [Type ''string'', Pattern patterns_uuid]] 0
           (VStr ''not-a-uuid'') None [] st
         = (Inr (False, [([], [Lit ''does not match the pattern `'', Lit ''uuid'', Lit ''`.''])]),
            st))"
  using C6_stateless_patterns_leave_store [where this = 0
      and h = "[spread defaults [Type ''string'', Pattern patterns_uuid]]"
      and rules_arg = None and depth = "Suc 0" and v = "VStr ''not-a-uuid''" and path = "[]"]
  by (simp add: spread_def defaults_def stateless_pattern_def all_true_def matcher_defs
      pattern_defs)

text \<open>
  The claim fails for a pattern with the \<^verbatim>\<open>g\<close> flag. \<^verbatim>\<open>Schema.matches(/a/g)\<close> accepts
  \<^verbatim>\<open>"a"\<close> and leaves the \<^verbatim>\<open>lastIndex\<close> of its pattern at 1; the same call again searches
  from there, finds nothing, and ends in the TypeError of the pattern without a name.
\<close>

theorem C6_global_pattern_changes_second_run:
  "(case static (Schema_matches regexp_a_global) [] of (s, h1) \<Rightarrow>
      validate (Suc 0) h1 s (VStr ''a'') None [] (\<lambda>i. 0) = (Inr (True, []), (\<lambda>i. 0)(6 := 1))
      \<and> validate (Suc 0) h1 s (VStr ''a'') None [] ((\<lambda>i. 0)(6 := 1))
          = (Inl TypeError, (\<lambda>i. 0)(6 := 0)))"
  by (simp add: builder_defs Schema_matches_def regexp_a_global_def exec_a_def matcher_defs
      pattern_defs)

text \<open>
  The rule set of the receiver counts as well as the one passed: a member that is not a
  schema is matched against it. \<^verbatim>\<open>Schema.isObject({k: 1}).rules\<close> has no pattern, and
  \<^verbatim>\<open>Schema.matches(/a/g).validate({k: "a"}, Schema.isObject({k: 1}).rules)\<close> tests the
  pattern of the receiver on the member: the second run differs from the first.
\<close>

lemma member_not_schema_reads_receiver:
  "(case static (Schema_matches regexp_a_global) [] of (s, h1) \<Rightarrow>
    case static (Schema_isObject (OneMapping [(''k'', MOther)])) h1 of (m, h2) \<Rightarrow>
      stateless (h2 ! m)
      \<and> validate (Suc (Suc 0)) h2 s (VObj [(''k'', VStr ''a'')]) (Some (h2 ! m)) [] (\<lambda>i. 0)
          = (Inr (True, []), (\<lambda>i. 0)(6 := 1))
      \<and> validate (Suc (Suc 0)) h2 s (VObj [(''k'', VStr ''a'')]) (Some (h2 ! m)) []
            ((\<lambda>i. 0)(6 := 1))
          = (Inl TypeError, (\<lambda>i. 0)(6 := 0)))"
  by (simp add: builder_defs Schema_matches_def regexp_a_global_def exec_a_def nth_append
      stateless_pattern_def all_true_def matcher_defs pattern_defs)

section \<open>The union law\<close>

lemma mapM_agree:
  assumes "\<And>c st. c \<in> set cs \<Longrightarrow> f c st = g c st"
  shows "mapM f cs st = mapM g cs st"
  using assms by (induction cs arbitrary: st) (auto split: prod.splits sum.splits)

lemma schema_slots:
  assumes "props_are_schemas ps"
  shows "all_true (map_option members_are_schemas (keys_slot ps))"
    and "all_true (map_option members_are_schemas (values_slot ps))"
  using assms
  by (cases ps;
      force simp: keys_slot_def values_slot_def all_true_def is_some_def list_all_iff
        split: option.splits dest!: map_of_SomeD)+

lemma schema_object_calls:
  assumes "props_are_schemas ps" and "c \<in> set (object_calls ps v path)"
  shows "schema_call c"
  using assms schema_slots [OF assms(1)]
  by (cases ps)
    (auto simp: object_calls_def schema_call_def all_true_def is_some_def list_all_iff
      split: option.splits)

lemma schema_array_calls:
  assumes "props_are_schemas ps" and "c \<in> set (array_calls ps v path)"
  shows "schema_call c"
  using assms schema_slots [OF assms(1)]
  by (cases ps)
    (auto simp: array_calls_def schema_call_def all_true_def is_some_def list_all_iff
      split: option.splits)

lemma schema_union_calls:
  assumes "members_are_schemas rules" and "c \<in> set (union_calls rules v path)"
  shows "schema_call c"
proof -
  from assms(2) obtain u where u: "u \<in> set (rules_union rules)"
    and c: "c = (v, Some (spread (spread rules (own_fields u)) [Union []]), path)"
    by (auto simp: union_calls_def)
  from assms(1) u have su: "members_are_schemas u"
    by (cases rules) (auto simp: list_all_iff)
  obtain a1 b1 c1 d1 e1 f1 g1 h1 i1 j1 k1 l1 where
    m: "spread (spread rules (own_fields u)) [Union []] = Rules a1 b1 c1 d1 e1 f1 g1 h1 i1 j1 k1 l1"
    by (cases "spread (spread rules (own_fields u)) [Union []]")
  from merged_sel [of rules u] m have
    "e1 = []"
    "l1 = (case rules_props u of None \<Rightarrow> rules_props rules | Some p \<Rightarrow> Some p)"
    by simp_all
  with assms(1) su have "members_are_schemas (Rules a1 b1 c1 d1 e1 f1 g1 h1 i1 j1 k1 l1)"
    by (cases rules; cases u) (auto split: option.splits)
  with c m show ?thesis by (simp add: schema_call_def is_some_def)
qed

lemma type_rules_agree:
  assumes "\<And>c st. schema_call c \<Longrightarrow> f c st = g c st" and "members_are_schemas rules"
  shows "type_rules f rules v path st = type_rules g rules v path st"
proof -
  from assms(2) have q: "all_true (map_option props_are_schemas (rules_props rules))"
    by (cases rules) simp
  have "mapM f (object_calls ps v path) st = mapM g (object_calls ps v path) st"
    if "rules_props rules = Some ps" for ps st
    using q that
    by (intro mapM_agree assms(1) schema_object_calls [of ps]) (simp_all add: all_true_def)
  moreover have "mapM f (array_calls ps v path) st = mapM g (array_calls ps v path) st"
    if "rules_props rules = Some ps" for ps st
    using q that
    by (intro mapM_agree assms(1) schema_array_calls [of ps]) (simp_all add: all_true_def)
  ultimately show ?thesis
    by (simp add: type_rules_def object_rules_def array_rules_def split: option.splits)
qed

lemma validate_any_receiver:
  "members_are_schemas rules \<Longrightarrow>
   validate depth h this v (Some rules) path st = validate depth h' this' v (Some rules) path st"
proof (induction depth arbitrary: v rules path st)
  case 0
  show ?case by simp
next
  case (Suc depth)
  let ?f = "\<lambda>(v2, rules2, path2). validate depth h this v2 rules2 path2"
  let ?g = "\<lambda>(v2, rules2, path2). validate depth h' this' v2 rules2 path2"
  have fg: "?f c st = ?g c st" if "schema_call c" for c st
  proof -
    obtain v2 r2 p2 where c: "c = (v2, r2, p2)" by (cases c)
    with that obtain r where "r2 = Some r" and "members_are_schemas r"
      by (cases r2) (auto simp: schema_call_def is_some_def)
    with c Suc.IH show ?thesis by simp
  qed
  have u: "mapM ?f (union_calls rules v1 path) st = mapM ?g (union_calls rules v1 path) st" for v1
    by (intro mapM_agree fg) (rule schema_union_calls [OF Suc.prems])
  have t: "type_rules ?f rules v1 path st = type_rules ?g rules v1 path st" for v1
    by (rule type_rules_agree [OF fg Suc.prems])
  show ?case
    by (simp add: u t split: sum.splits)
qed

lemma validate_default_arg:
  "validate depth h this v None path st = validate depth h this v (Some (h ! this)) path st"
  by (cases depth) simp_all

lemma merged_over_defaults:
  assumes "rules_union u = []"
  shows "spread (spread (spread defaults [Union us]) (own_fields u)) [Union []] = u"
  using assms by (cases u) (simp add: spread_def defaults_def split: option.splits prod.splits)

text \<open>
  C5, as the code has it. Let \<open>a\<close> and \<open>b\<close> be schemas with no alternatives of their own
  and whose members are schemas, and \<open>v\<close> a value that is neither \<^verbatim>\<open>undefined\<close> nor \<^verbatim>\<open>null\<close>.
  If matching \<open>v\<close> against \<open>a\<close> returns, and matching it against \<open>b\<close> from the store
  that leaves returns too, then matching \<open>v\<close> against \<^verbatim>\<open>Schema.isEither(a, b)\<close>, one level
  deeper, returns: it is valid exactly when one of the two is, and when neither is, its
  violations are those of \<open>a\<close> followed by those of \<open>b\<close>. Whatever \<open>a\<close> and \<open>b\<close> are,
  \<^verbatim>\<open>undefined\<close> and \<^verbatim>\<open>null\<close> are invalid for \<^verbatim>\<open>Schema.isEither(a, b)\<close>, each with its one
  violation: the union starts from the defaults, which require a value that is not
  \<^verbatim>\<open>null\<close>.
\<close>

theorem C5_union_law:
  "(case static (Schema_isEither [a, b]) h of (e, h1) \<Rightarrow>
      (a < length h \<and> b < length h \<and> \<not> isUndefined v \<and> \<not> isNull v
       \<and> rules_union (h ! a) = [] \<and> rules_union (h ! b) = []
       \<and> members_are_schemas (h ! a) \<and> members_are_schemas (h ! b)
       \<and> validate depth h a v None [] st = (Inr ra, st1)
       \<and> validate depth h b v None [] st1 = (Inr rb, st2) \<longrightarrow>
         (\<exists>r. validate (Suc depth) h1 e v None [] st = (Inr r, st2)
            \<and> (fst r \<longleftrightarrow> fst ra \<or> fst rb)
            \<and> (\<not> fst ra \<and> \<not> fst rb \<longrightarrow> snd r = snd ra @ snd rb)))
      \<and> validate (Suc depth) h1 e VUndefined None [] st
          = (Inr (False, [([], [Lit ''is undefined.''])]), st)
      \<and> validate (Suc depth) h1 e VNull None [] st
          = (Inr (False, [([], [Lit ''is null.''])]), st))"
proof -
  obtain e h1 where e: "static (Schema_isEither [a, b]) h = (e, h1)"
    by (cases "static (Schema_isEither [a, b]) h")
  then have E: "rules_required (h1 ! e)" "\<not> rules_null (h1 ! e)"
    by (auto simp: static_def new_Schema_def Schema_isEither_def setRules_def spread_def
        defaults_def)
  have absent: "validate (Suc depth) h1 e VUndefined None [] st
      = (Inr (False, [([], [Lit ''is undefined.''])]), st)"
    "validate (Suc depth) h1 e VNull None [] st = (Inr (False, [([], [Lit ''is null.''])]), st)"
    using E by (simp_all add: error_def)
  have law: "\<exists>r. validate (Suc depth) h1 e v None [] st = (Inr r, st2)
            \<and> (fst r \<longleftrightarrow> fst ra \<or> fst rb)
            \<and> (\<not> fst ra \<and> \<not> fst rb \<longrightarrow> snd r = snd ra @ snd rb)"
    if lt: "a < length h" "b < length h" and v: "\<not> isUndefined v" "\<not> isNull v"
      and ua: "rules_union (h ! a) = []" and ub: "rules_union (h ! b) = []"
      and ma: "members_are_schemas (h ! a)" and mb: "members_are_schemas (h ! b)"
      and ra: "validate depth h a v None [] st = (Inr ra, st1)"
      and rb: "validate depth h b v None [] st1 = (Inr rb, st2)"
  proof -
    let ?E = "spread defaults [Union [h ! a, h ! b]]"
    let ?h1 = "h @ [?E]"
    have eq: "e = length h" "h1 = ?h1"
      using e lt
      by (simp_all add: static_def new_Schema_def Schema_isEither_def setRules_def nth_append)
    have U: "rules_required ?E" "\<not> rules_null ?E" "rules_coerce ?E = []" "rules_values ?E = []"
      "rules_union ?E = [h ! a, h ! b]"
      by (simp_all add: spread_def defaults_def)
    have ca: "validate depth ?h1 (length h) v (Some (h ! a)) [] st = (Inr ra, st1)"
      using validate_any_receiver [OF ma, of depth ?h1 "length h" v "[]" st h a] ra
      by (simp add: validate_default_arg)
    have cb: "validate depth ?h1 (length h) v (Some (h ! b)) [] st1 = (Inr rb, st2)"
      using validate_any_receiver [OF mb, of depth ?h1 "length h" v "[]" st1 h b] rb
      by (simp add: validate_default_arg)
    have "validate (Suc depth) ?h1 (length h) v None [] st = (Inr (reduce_or [ra, rb]), st2)"
      using v U ca cb
      by (simp add: union_calls_def merged_over_defaults [OF ua] merged_over_defaults [OF ub])
    then show ?thesis
      by (simp add: eq reduce_or_eq del: validate.simps)
  qed
  from law absent show ?thesis
    unfolding e by (simp del: validate.simps)
qed

text \<open>
  \<^verbatim>\<open>Schema.isEither(Schema.isNumber, Schema.isBoolean)\<close> on \<^verbatim>\<open>"x"\<close>, which neither
  alternative accepts.
\<close>

theorem C5_union_law_witness:
  "(case static Schema_isNumber [] of (a, h1) \<Rightarrow>
    case static Schema_isBoolean h1 of (b, h2) \<Rightarrow>
    case static (Schema_isEither [a, b]) h2 of (e, h3) \<Rightarrow>
      validate (Suc 0) h2 a (VStr ''x'') None [] (\<lambda>i. 0)
        = (Inr (False, [([], [Lit ''is not a number''])]), \<lambda>i. 0)
      \<and> validate (Suc 0) h2 b (VStr ''x'') None [] (\<lambda>i. 0)
        = (Inr (False, [([], [Lit ''is not a boolean.''])]), \<lambda>i. 0)
      \<and> validate (Suc (Suc 0)) h3 e (VStr ''x'') None [] (\<lambda>i. 0)
        = (Inr (False, [([], [Lit ''is not a number'']), ([], [Lit ''is not a boolean.''])]),
           \<lambda>i. 0)
      \<and> validate (Suc (Suc 0)) h3 e VUndefined None [] (\<lambda>i. 0)
        = (Inr (False, [([], [Lit ''is undefined.''])]), \<lambda>i. 0)
      \<and> validate (Suc (Suc 0)) h3 e VNull None [] (\<lambda>i. 0)
        = (Inr (False, [([], [Lit ''is null.''])]), \<lambda>i. 0))"
  using C5_union_law [where a = 0 and b = 1
      and h = "[spread defaults [Type ''number'', Integer False],
                spread defaults [Type ''boolean'']]"
      and v = "VStr ''x''" and depth = "Suc 0" and st = "\<lambda>i. 0" and ?st1.0 = "\<lambda>i. 0"
      and ?st2.0 = "\<lambda>i. 0" and ra = "(False, [([], [Lit ''is not a number''])])"
      and rb = "(False, [([], [Lit ''is not a boolean.''])])"]
  by (simp add: builder_defs Schema_isNumber_def Schema_isBoolean_def Schema_isEither_def
      matcher_defs)

text \<open>
  The law fails for an absent value: the union schema starts from the defaults and
  requires its value, so \<^verbatim>\<open>undefined\<close> is invalid for \<^verbatim>\<open>isEither(isOptional, isBoolean)\<close>
  although it is valid for \<^verbatim>\<open>isOptional\<close>.
\<close>

theorem C5_absent_value_breaks_law:
  "(case static Schema_isOptional [] of (a, h1) \<Rightarrow>
    case static Schema_isBoolean h1 of (b, h2) \<Rightarrow>
    case static (Schema_isEither [a, b]) h2 of (e, h3) \<Rightarrow>
      validate (Suc (Suc 0)) h3 a VUndefined None [] (\<lambda>i. 0) = (Inr (True, []), \<lambda>i. 0)
      \<and> validate (Suc (Suc 0)) h3 e VUndefined None [] (\<lambda>i. 0)
        = (Inr (False, [([], [Lit ''is undefined.''])]), \<lambda>i. 0))"
  by (simp add: builder_defs Schema_isOptional_def Schema_isBoolean_def Schema_isEither_def
      matcher_defs)

text \<open>
  It fails as well where an alternative has alternatives of its own, which the merge
  with \<^verbatim>\<open>union: []\<close> drops: \<^verbatim>\<open>isEither(isNumber, isBoolean)\<close> accepts 5, and as an
  alternative of another union it is matched as its type alone, a string.
\<close>

lemma union_law_nested_union:
  "(case static Schema_isNumber [] of (n, h1) \<Rightarrow>
    case static Schema_isBoolean h1 of (b, h2) \<Rightarrow>
    case static (Schema_isEither [n, b]) h2 of (a, h3) \<Rightarrow>
    case static Schema_isBoolean h3 of (b2, h4) \<Rightarrow>
    case static (Schema_isEither [a, b2]) h4 of (e, h5) \<Rightarrow>
      validate (Suc (Suc (Suc 0))) h5 a (VNum (Finite 5)) None [] (\<lambda>i. 0)
        = (Inr (True, [([], [Lit ''is not a boolean.''])]), \<lambda>i. 0)
      \<and> validate (Suc (Suc (Suc 0))) h5 e (VNum (Finite 5)) None [] (\<lambda>i. 0)
        = (Inr (False, [([], [Lit ''is not a string.'']), ([], [Lit ''is not a boolean.''])]),
           \<lambda>i. 0))"
  by (simp add: builder_defs Schema_isNumber_def Schema_isBoolean_def Schema_isEither_def
      nth_append matcher_defs)

text \<open>
  And it fails where an alternative has a member that is not a schema: the member is
  matched against the rule set of the receiver, which for the alternative alone is its
  own and inside the union is the union's.
\<close>

lemma union_law_member_not_schema:
  "(case static (Schema_isObject (OneMapping [(''k'', MOther)])) [] of (a, h1) \<Rightarrow>
    case static Schema_isString h1 of (b, h2) \<Rightarrow>
    case static (Schema_isEither [a, b]) h2 of (e, h3) \<Rightarrow>
      validate (Suc (Suc (Suc (Suc 0)))) h3 a (VObj [(''k'', VStr ''x'')]) None [] (\<lambda>i. 0)
        = (Inr (False, [([KStr ''k''], [Lit ''is not an object.''])]), \<lambda>i. 0)
      \<and> validate (Suc (Suc (Suc (Suc 0)))) h3 b (VObj [(''k'', VStr ''x'')]) None [] (\<lambda>i. 0)
        = (Inr (False, [([], [Lit ''is not a string.''])]), \<lambda>i. 0)
      \<and> validate (Suc (Suc (Suc (Suc 0)))) h3 e (VObj [(''k'', VStr ''x'')]) None [] (\<lambda>i. 0)
        = (Inr (True, [([], [Lit ''is not a string.''])]), \<lambda>i. 0))"
  by (simp add: builder_defs Schema_isString_def Schema_isEither_def nth_append matcher_defs)

end
